theory Spec2Isabelle
  imports Complex_Main
begin

section \<open>JavaScript values\<close>

text \<open>
  The SDK reads its data from parsed JSON responses, so the model works on JavaScript
  values as \<open>JSON.parse\<close> produces them, plus \<open>undefined\<close>. An object is the list
  of its own properties; the first binding of a key is the one a property read sees.
  A string is a list of code units; \<open>char\<close> covers the units 0 to 255, which is
  enough for every character the source treats specially (all of them ASCII, and the
  no-break space 160 of the DOM's text serialisation).
\<close>

datatype jsval =
    Undefined
  | Null
  | Bool bool
  | Num real
  | Str string
  | Arr "jsval list"
  | Obj "(string \<times> jsval) list"

text \<open>What a \<open>throw\<close> carries: a \<open>TypeError\<close> of the runtime, or \<open>new Error(message)\<close>.\<close>

datatype js_error = TypeError | Error string

text \<open>\<open>ToBoolean\<close>: what \<open>if (v)\<close>, \<open>!v\<close>, \<open>a || b\<close> and \<open>a && b\<close> test.\<close>

fun truthy :: "jsval \<Rightarrow> bool" where
  "truthy Undefined = False"
| "truthy Null = False"
| "truthy (Bool b) = b"
| "truthy (Num x) = (x \<noteq> 0)"
| "truthy (Str s) = (s \<noteq> [])"
| "truthy (Arr xs) = True"
| "truthy (Obj kvs) = True"

text \<open>What \<open>?.\<close> tests.\<close>

fun nullish :: "jsval \<Rightarrow> bool" where
  "nullish Undefined = True"
| "nullish Null = True"
| "nullish v = False"

text \<open>\<open>a || b\<close> on two values already computed.\<close>

definition js_or :: "jsval \<Rightarrow> jsval \<Rightarrow> jsval" where
  "js_or a b = (if truthy a then a else b)"

text \<open>
  \<open>v.k\<close> on a value that is neither \<open>null\<close> nor \<open>undefined\<close>, for the keys the
  source reads (tag names, \<open>name\<close>, \<open>display_name\<close>, \<open>tags\<close>, \<open>elements\<close>,
  \<open>results\<close>, \<open>lat\<close>, \<open>lng\<close> and the like): none of them is a property of a
  primitive, of an array or of \<open>Object.prototype\<close>, so only an object's own
  properties answer.
\<close>

fun property :: "jsval \<Rightarrow> string \<Rightarrow> jsval" where
  "property (Obj kvs) k = (case map_of kvs k of Some v \<Rightarrow> v | None \<Rightarrow> Undefined)"
| "property v k = Undefined"

text \<open>\<open>v.k\<close>: a \<open>TypeError\<close> on \<open>null\<close> and \<open>undefined\<close>.\<close>

definition get_property :: "jsval \<Rightarrow> string \<Rightarrow> js_error + jsval" where
  "get_property v k = (if nullish v then Inl TypeError else Inr (property v k))"

text \<open>\<open>v?.k\<close>.\<close>

definition opt_property :: "jsval \<Rightarrow> string \<Rightarrow> jsval" where
  "opt_property v k = (if nullish v then Undefined else property v k)"

text \<open>\<open>v?.[0]\<close>: the first element of an array, the first code unit of a string.\<close>

fun opt_first :: "jsval \<Rightarrow> jsval" where
  "opt_first (Arr []) = Undefined"
| "opt_first (Arr (x # xs)) = x"
| "opt_first (Str []) = Undefined"
| "opt_first (Str (c # cs)) = Str [c]"
| "opt_first (Obj kvs) = property (Obj kvs) ''0''"
| "opt_first v = Undefined"

section \<open>String formatting\<close>

text \<open>The class \<open>\w\<close> of a regular expression without flags: \<open>[A-Za-z0-9_]\<close>.\<close>

definition lower_case :: string where
  "lower_case = ''abcdefghijklmnopqrstuvwxyz''"

definition upper_case :: string where
  "upper_case = ''ABCDEFGHIJKLMNOPQRSTUVWXYZ''"

definition is_word :: "char \<Rightarrow> bool" where
  "is_word c = (c \<in> set (lower_case @ upper_case @ ''0123456789_''))"

text \<open>
  \<open>l.toUpperCase()\<close> on the one code unit a \<open>\w\<close> match holds: a lower-case letter
  becomes the upper-case one, a capital, a digit and the underscore stay.
\<close>

definition toUpperCase :: "char \<Rightarrow> char" where
  "toUpperCase c = (case map_of (zip lower_case upper_case) c of Some u \<Rightarrow> u | None \<Rightarrow> c)"

text \<open>\<open>value.replace(/_/g, ' ')\<close>.\<close>

definition replace_underscores :: "string \<Rightarrow> string" where
  "replace_underscores s = map (\<lambda>c. if c = CHR ''_'' then CHR '' '' else c) s"

text \<open>
  \<open>s.replace(/\b\w/g, l => l.toUpperCase())\<close>: a \<open>\w\<close> unit at a word boundary, that
  is at the start or after a unit that is not \<open>\w\<close>, is replaced by its upper case.
  The flag says whether the unit before is a \<open>\w\<close>.
\<close>

fun capitalize_from :: "bool \<Rightarrow> string \<Rightarrow> string" where
  "capitalize_from prev [] = []"
| "capitalize_from prev (c # cs) =
     (if is_word c \<and> \<not> prev then toUpperCase c else c) # capitalize_from (is_word c) cs"

definition capitalize_words :: "string \<Rightarrow> string" where
  "capitalize_words s = capitalize_from False s"

text \<open>\<open>s.split(',')[0]\<close>: the string up to its first comma.\<close>

definition first_segment :: "string \<Rightarrow> string" where
  "first_segment s = takeWhile (\<lambda>c. c \<noteq> CHR '','') s"

section \<open>Category Formatter\<close>

text \<open>\<open>MapManager.formatCategory\<close>: the object literal \<open>categoryMap\<close>, in the order written.\<close>

definition categoryMap :: "jsval \<Rightarrow> (string \<times> jsval) list" where
  "categoryMap tags =
     [(''amenity'', property tags ''amenity''),
      (''shop'', property tags ''shop''),
      (''building'', property tags ''building''),
      (''leisure'', property tags ''leisure''),
      (''tourism'', property tags ''tourism''),
      (''highway'', property tags ''highway''),
      (''office'', property tags ''office''),
      (''craft'', property tags ''craft'')]"

text \<open>
  The loop over \<open>Object.entries(categoryMap)\<close>. \<open>value.replace\<close> exists on a string
  only: any other truthy value raises a \<open>TypeError\<close>.
\<close>

fun scan_entries :: "(string \<times> jsval) list \<Rightarrow> js_error + string" where
  "scan_entries [] = Inr ''Location''"
| "scan_entries ((key, value) # es) =
     (if truthy value
      then (case value of
              Str s \<Rightarrow> Inr (capitalize_words (replace_underscores s))
            | _ \<Rightarrow> Inl TypeError)
      else scan_entries es)"

definition formatCategory :: "jsval \<Rightarrow> js_error + string" where
  "formatCategory tags =
     (if \<not> truthy tags then Inr ''Location'' else scan_entries (categoryMap tags))"

text \<open>The priority order of the specification, to compare the code with.\<close>

definition candidate_keys :: "string list" where
  "candidate_keys =
     [''amenity'', ''shop'', ''building'', ''leisure'', ''tourism'', ''highway'', ''office'', ''craft'']"

section \<open>Place Resolver\<close>

text \<open>
  What \<open>await fetch(...)\<close> followed by \<open>await response.json()\<close> comes to: one of the
  two rejects (no network, a body that is not JSON), or the parsed body. The place
  lookups do not test \<open>response.ok\<close>.
\<close>

datatype lookup = Rejects | Responds jsval

record place_data =
  nominatim :: jsval
  overpass :: jsval

text \<open>
  \<open>ApiManager.getPlaceDetails\<close>. Both requests sit in one \<open>try\<close>: the first
  rejection, or \<open>overpassData.elements\<close> on a \<open>null\<close> body, ends in the \<open>catch\<close>,
  which returns two \<open>null\<close>s. The second argument is what the tag query would answer;
  it is not issued when the first request rejects.
\<close>

definition ApiManager_getPlaceDetails :: "lookup \<Rightarrow> lookup \<Rightarrow> place_data" where
  "ApiManager_getPlaceDetails nominatimLookup overpassLookup =
     (case nominatimLookup of
        Rejects \<Rightarrow> \<lparr>nominatim = Null, overpass = Null\<rparr>
      | Responds nominatimData \<Rightarrow>
          (case overpassLookup of
             Rejects \<Rightarrow> \<lparr>nominatim = Null, overpass = Null\<rparr>
           | Responds overpassData \<Rightarrow>
               (case get_property overpassData ''elements'' of
                  Inl e \<Rightarrow> \<lparr>nominatim = Null, overpass = Null\<rparr>
                | Inr elements \<Rightarrow>
                    \<lparr>nominatim = nominatimData, overpass = js_or (opt_first elements) Null\<rparr>)))"

record latlng =
  lat :: real
  lng :: real

text \<open>
  The fields the Popup Renderer reads, and the PlaceRecord, which adds the coordinates.
  A field holds any value: \<open>tags.name || ...\<close> hands on whatever truthy value the tag
  bag has.
\<close>

record popup_data =
  name :: jsval
  address :: jsval
  type :: jsval
  phone :: jsval
  website :: jsval
  hours :: jsval

record place_record = popup_data +
  coordinates :: latlng

text \<open>\<open>const tags = overpass?.tags || {}\<close>.\<close>

definition resolved_tags :: "place_data \<Rightarrow> jsval" where
  "resolved_tags placeData = js_or (opt_property (overpass placeData) ''tags'') (Obj [])"

text \<open>
  \<open>display_name?.split(',')[0]\<close> on the value of \<open>display_name\<close>: \<open>undefined\<close>
  when that is \<open>null\<close> or \<open>undefined\<close>, a \<open>TypeError\<close> when it is not a string
  (no \<open>split\<close> to call).
\<close>

definition split_first :: "jsval \<Rightarrow> js_error + jsval" where
  "split_first display_name =
     (if nullish display_name then Inr Undefined
      else (case display_name of
              Str s \<Rightarrow> Inr (Str (first_segment s))
            | _ \<Rightarrow> Inl TypeError))"

text \<open>
  \<open>tags.name || nominatim?.name || nominatim?.display_name?.split(',')[0] ||
  'Unknown Location'\<close>; \<open>||\<close> evaluates its right side only when the left is falsy.
\<close>

definition resolve_name :: "jsval \<Rightarrow> jsval \<Rightarrow> js_error + jsval" where
  "resolve_name tags nominatimData =
     (if truthy (property tags ''name'') then Inr (property tags ''name'')
      else if truthy (opt_property nominatimData ''name'')
      then Inr (opt_property nominatimData ''name'')
      else (case split_first (opt_property nominatimData ''display_name'') of
              Inl e \<Rightarrow> Inl e
            | Inr segment \<Rightarrow> Inr (js_or segment (Str ''Unknown Location''))))"

text \<open>\<open>MapManager.formatPlaceData\<close>; the fields are evaluated in the order written.\<close>

definition formatPlaceData :: "place_data \<Rightarrow> real \<Rightarrow> real \<Rightarrow> js_error + place_record" where
  "formatPlaceData placeData la lo =
     (let nominatimData = nominatim placeData;
          tags = resolved_tags placeData
      in case resolve_name tags nominatimData of
           Inl e \<Rightarrow> Inl e
         | Inr resolved \<Rightarrow>
             (case formatCategory tags of
                Inl e \<Rightarrow> Inl e
              | Inr category \<Rightarrow>
                  Inr \<lparr>name = resolved,
                       address = js_or (opt_property nominatimData ''display_name'')
                                   (Str ''Address not available''),
                       type = Str category,
                       phone = js_or (js_or (property tags ''phone'')
                                 (property tags ''contact:phone'')) (Str ''Not available''),
                       website = js_or (js_or (js_or (property tags ''website'')
                                   (property tags ''contact:website'')) (property tags ''url'')) Null,
                       hours = js_or (property tags ''opening_hours'') (Str ''Not available''),
                       coordinates = \<lparr>lat = la, lng = lo\<rparr>\<rparr>))"

text \<open>The record the \<open>catch\<close> of \<open>MapifyOS.getPlaceDetails\<close> returns.\<close>

definition fallback_record :: "real \<Rightarrow> real \<Rightarrow> place_record" where
  "fallback_record la lo =
     \<lparr>name = Str ''Unknown Location'',
      address = Str ''Address not available'',
      type = Str ''Location'',
      phone = Str ''Not available'',
      website = Null,
      hours = Str ''Not available'',
      coordinates = \<lparr>lat = la, lng = lo\<rparr>\<rparr>"

text \<open>
  \<open>tags.name || nominatimData.name || nominatimData.display_name?.split(',')[0] ||
  'Unnamed Location'\<close> of the facade: \<open>nominatimData\<close> is read without \<open>?.\<close>.
\<close>

definition facade_name :: "jsval \<Rightarrow> jsval \<Rightarrow> js_error + jsval" where
  "facade_name tags nominatimData =
     (if truthy (property tags ''name'') then Inr (property tags ''name'')
      else (case get_property nominatimData ''name'' of
              Inl e \<Rightarrow> Inl e
            | Inr short \<Rightarrow>
                if truthy short then Inr short
                else (case split_first (property nominatimData ''display_name'') of
                        Inl e \<Rightarrow> Inl e
                      | Inr segment \<Rightarrow> Inr (js_or segment (Str ''Unnamed Location'')))))"

text \<open>
  \<open>MapifyOS.getPlaceDetails\<close>, the facade's own resolution: the same two lookups, a
  record built in place, and a \<open>catch\<close> around all of it.
\<close>

definition MapifyOS_getPlaceDetails :: "lookup \<Rightarrow> lookup \<Rightarrow> real \<Rightarrow> real \<Rightarrow> place_record" where
  "MapifyOS_getPlaceDetails nominatimLookup overpassLookup la lo =
     (case nominatimLookup of
        Rejects \<Rightarrow> fallback_record la lo
      | Responds nominatimData \<Rightarrow>
          (case overpassLookup of
             Rejects \<Rightarrow> fallback_record la lo
           | Responds overpassData \<Rightarrow>
               (case get_property overpassData ''elements'' of
                  Inl e \<Rightarrow> fallback_record la lo
                | Inr elements \<Rightarrow>
                    (let relevantElement = opt_first elements;
                         tags = js_or (opt_property relevantElement ''tags'') (Obj [])
                     in case facade_name tags nominatimData of
                          Inl e \<Rightarrow> fallback_record la lo
                        | Inr resolved \<Rightarrow>
                            (case get_property nominatimData ''display_name'' of
                               Inl e \<Rightarrow> fallback_record la lo
                             | Inr display_name \<Rightarrow>
                                 \<lparr>name = resolved,
                                  address = js_or display_name (Str ''Address not available''),
                                  type = js_or (js_or (js_or (js_or (property tags ''amenity'')
                                           (property tags ''shop'')) (property tags ''office''))
                                           (property tags ''building'')) (Str ''Building''),
                                  phone = js_or (js_or (property tags ''phone'')
                                            (property tags ''contact:phone'')) (Str ''Not available''),
                                  website = js_or (js_or (js_or (property tags ''website'')
                                              (property tags ''contact:website''))
                                              (property tags ''url'')) Null,
                                  hours = js_or (property tags ''opening_hours'')
                                            (Str ''Not available''),
                                  coordinates = \<lparr>lat = la, lng = lo\<rparr>\<rparr>)))))"

section \<open>Popup Renderer\<close>

text \<open>
  What the model takes from the platform the SDK runs on: the runtime's \<open>ToString\<close>
  on a value that is not a string (a template literal applies it), and two calls into
  the map library. \<open>addMarker m la lo\<close> is \<open>L.marker([la, lo]).addTo(m)\<close>, where
  \<open>m\<close> is \<open>this.map\<close>, \<open>None\<close> for \<open>null\<close>; \<open>fitBounds ms\<close> is
  \<open>fitBounds(group.getBounds().pad(0.1))\<close> on a live map for the group of the markers
  \<open>ms\<close>. Each answers the error it raises, if any. The other calls into the
  library (\<open>removeLayer\<close>, \<open>getCenter\<close> and \<open>remove\<close> on a live map,
  \<open>bindPopup\<close>, \<open>setContent\<close> on a popup) are taken to succeed.
\<close>

record marker =
  marker_lat :: jsval
  marker_lng :: jsval
  marker_popup :: string

record platform =
  ToString :: "jsval \<Rightarrow> js_error + string"
  addMarker :: "marker list option \<Rightarrow> jsval \<Rightarrow> jsval \<Rightarrow> js_error option"
  fitBounds :: "marker list \<Rightarrow> js_error option"

text \<open>\<open>${v}\<close> in a template literal.\<close>

definition template_text :: "platform \<Rightarrow> jsval \<Rightarrow> js_error + string" where
  "template_text P v = (case v of Str s \<Rightarrow> Inr s | _ \<Rightarrow> ToString P v)"

text \<open>
  \<open>PopupUI.escapeHtml\<close>: the text goes into a \<open>div\<close> through \<open>textContent\<close> and comes
  back through \<open>innerHTML\<close>, which writes the ampersand, the two angle brackets and the
  no-break space as character references and every other unit as it is, the quotes
  included.
\<close>

definition escape_unit :: "char \<Rightarrow> string" where
  \<open>escape_unit c =
     (if c = CHR ''&'' then ''&amp;''
      else if c = CHR ''<'' then ''&lt;''
      else if c = CHR ''>'' then ''&gt;''
      else if c = CHR 0xA0 then ''&nbsp;''
      else [c])\<close>

definition escapeHtml :: "jsval \<Rightarrow> string" where
  "escapeHtml text = (case text of Str s \<Rightarrow> concat (map escape_unit s) | _ \<Rightarrow> [])"

text \<open>\<open>address.replace(/'/g, "\\'")\<close>: a backslash before every single quote.\<close>

definition escape_quotes :: "string \<Rightarrow> string" where
  "escape_quotes s = concat (map (\<lambda>c. if c = CHR 0x27 then [CHR 0x5C, CHR 0x27] else [c]) s)"

text \<open>\<open>website.replace(/^https?:\/\//, '').replace(/\/$/, '')\<close>.\<close>

definition strip_protocol :: "string \<Rightarrow> string" where
  "strip_protocol s =
     (if take 7 s = ''http://'' then drop 7 s
      else if take 8 s = ''https://'' then drop 8 s
      else s)"

definition strip_trailing_slash :: "string \<Rightarrow> string" where
  "strip_trailing_slash s = (if s \<noteq> [] \<and> last s = CHR ''/'' then butlast s else s)"

text \<open>A destructuring default: it replaces \<open>undefined\<close> only.\<close>

definition default_to :: "jsval \<Rightarrow> jsval \<Rightarrow> jsval" where
  "default_to v d = (if v = Undefined then d else v)"

text \<open>
  The fixed markup of the templates. The line breaks and the indentation between the
  tags are left out; the tags and the icons are the source's.
\<close>

definition phone_icon :: string where
  \<open>phone_icon = ''<svg class="contact-icon" fill="none" stroke="currentColor" viewBox="0 0 24 24"><path stroke-linecap="round" stroke-linejoin="round" stroke-width="2" d="M3 5a2 2 0 012-2h3.28a1 1 0 01.948.684l1.498 4.493a1 1 0 01-.502 1.21l-2.257 1.13a11.042 11.042 0 005.516 5.516l1.13-2.257a1 1 0 011.21-.502l4.493 1.498a1 1 0 01.684.949V19a2 2 0 01-2 2h-1C9.716 21 3 14.284 3 6V5z"></path></svg>''\<close>

definition website_icon :: string where
  \<open>website_icon = ''<svg class="contact-icon" fill="none" stroke="currentColor" viewBox="0 0 24 24"><path stroke-linecap="round" stroke-linejoin="round" stroke-width="2" d="M21 12a9 9 0 01-9 9m9-9a9 9 0 00-9-9m9 9H3m9 9v-9m0-9v9"></path></svg>''\<close>

definition hours_icon :: string where
  \<open>hours_icon = ''<svg class="contact-icon" fill="none" stroke="currentColor" viewBox="0 0 24 24"><path stroke-linecap="round" stroke-linejoin="round" stroke-width="2" d="M12 8v4l3 3m6-3a9 9 0 11-18 0 9 9 0 0118 0z"></path></svg>''\<close>

definition copy_icon :: string where
  \<open>copy_icon = ''<svg class="copy-icon" fill="none" stroke="currentColor" viewBox="0 0 24 24"><path stroke-linecap="round" stroke-linejoin="round" stroke-width="2" d="M8 16H6a2 2 0 01-2-2V6a2 2 0 012-2h8a2 2 0 012 2v2m-6 12h8a2 2 0 002-2v-8a2 2 0 00-2-2h-8a2 2 0 00-2 2v8a2 2 0 002 2z"></path></svg>''\<close>

text \<open>The opening of the fragment: heading, category badge unless \<open>'Location'\<close>, address.\<close>

definition popup_head :: "jsval \<Rightarrow> jsval \<Rightarrow> jsval \<Rightarrow> string" where
  \<open>popup_head nm ty addr =
     ''<div class="mapify-popup"><h3>'' @ escapeHtml nm @ ''</h3>'' @
     (if ty \<noteq> Str ''Location''
      then ''<div class="category">'' @ escapeHtml ty @ ''</div>'' else []) @
     ''<div class="address">'' @ escapeHtml addr @ ''</div><div class="contact-info">''\<close>

text \<open>\<open>if (phone && phone !== 'Not available')\<close>.\<close>

definition phone_item :: "platform \<Rightarrow> jsval \<Rightarrow> js_error + string" where
  \<open>phone_item P ph =
     (if truthy ph \<and> ph \<noteq> Str ''Not available''
      then (case template_text P ph of
              Inl e \<Rightarrow> Inl e
            | Inr target \<Rightarrow>
                Inr (''<div class="contact-item">'' @ phone_icon @
                     ''<a href="tel:'' @ target @ ''" class="contact-link">'' @
                     escapeHtml ph @ ''</a></div>''))
      else Inr [])\<close>

text \<open>\<open>if (website)\<close>; \<open>website.replace\<close> raises on a truthy value that is no string.\<close>

definition website_item :: "jsval \<Rightarrow> js_error + string" where
  \<open>website_item ws =
     (if truthy ws
      then (case ws of
              Str w \<Rightarrow>
                (let displayUrl = strip_trailing_slash (strip_protocol w)
                 in Inr (''<div class="contact-item">'' @ website_icon @
                         ''<a href="'' @ w @ ''" target="_blank" class="contact-link">'' @
                         escapeHtml (Str displayUrl) @ ''</a></div>''))
            | _ \<Rightarrow> Inl TypeError)
      else Inr [])\<close>

text \<open>\<open>if (hours && hours !== 'Not available')\<close>.\<close>

definition hours_item :: "jsval \<Rightarrow> string" where
  \<open>hours_item hs =
     (if truthy hs \<and> hs \<noteq> Str ''Not available''
      then ''<div class="contact-item">'' @ hours_icon @
           ''<span>'' @ escapeHtml hs @ ''</span></div>''
      else [])\<close>

definition popup_foot :: "string \<Rightarrow> string" where
  \<open>popup_foot copyableAddress =
     ''</div><button class="copy-button" onclick="this.copyAddress('' @ [CHR 0x27] @
     copyableAddress @ [CHR 0x27] @ '', this)">'' @ copy_icon @
     ''Copy Address</button></div>''\<close>

text \<open>
  \<open>PopupUI.createPopupContent\<close>. \<open>address.replace\<close> comes first and raises when the
  address, after its default, is no string.
\<close>

definition createPopupContent :: "platform \<Rightarrow> 'a popup_data_scheme \<Rightarrow> js_error + string" where
  "createPopupContent P data =
     (let nm = default_to (name data) (Str ''Unknown Location'');
          addr = default_to (address data) (Str ''Address not available'');
          ty = default_to (type data) (Str ''Location'')
      in case addr of
           Str a \<Rightarrow>
             (let copyableAddress = escape_quotes a
              in case phone_item P (phone data) of
                   Inl e \<Rightarrow> Inl e
                 | Inr phone_part \<Rightarrow>
                     (case website_item (website data) of
                        Inl e \<Rightarrow> Inl e
                      | Inr website_part \<Rightarrow>
                          Inr (popup_head nm ty addr @ phone_part @ website_part @
                               hours_item (hours data) @ popup_foot copyableAddress)))
         | _ \<Rightarrow> Inl TypeError)"

text \<open>\<open>result.type?.replace(/_/g, ' ').replace(/\b\w/g, ...)\<close>.\<close>

definition format_result_type :: "jsval \<Rightarrow> js_error + jsval" where
  "format_result_type ty =
     (if nullish ty then Inr Undefined
      else (case ty of
              Str s \<Rightarrow> Inr (Str (capitalize_words (replace_underscores s)))
            | _ \<Rightarrow> Inl TypeError))"

text \<open>\<open>PopupUI.createSearchResultPopup\<close>.\<close>

definition createSearchResultPopup :: "platform \<Rightarrow> jsval \<Rightarrow> js_error + string" where
  "createSearchResultPopup P result =
     (case get_property result ''name'' of
        Inl e \<Rightarrow> Inl e
      | Inr nm \<Rightarrow>
          (case format_result_type (property result ''type'') of
             Inl e \<Rightarrow> Inl e
           | Inr ty \<Rightarrow>
               createPopupContent P
                 \<lparr>name = nm,
                  address = js_or (property result ''address'') (Str ''Address not available''),
                  type = ty,
                  phone = property result ''phone'',
                  website = property result ''website'',
                  hours = property result ''opening_hours''\<rparr>))"

definition createErrorContent :: string where
  \<open>createErrorContent =
     ''<div class="mapify-error"><p>Unable to load place information</p></div>''\<close>

section \<open>Search request\<close>

text \<open>
  What the request of \<open>ApiManager.searchPlaces\<close> comes to: \<open>fetch\<close> rejects, or a
  response arrives with its \<open>ok\<close> flag, its status and its body, \<open>None\<close> when
  \<open>response.json()\<close> rejects.
\<close>

datatype http_outcome = NetworkError | HttpResponse bool nat "jsval option"

text \<open>
  \<open>ApiManager.searchPlaces\<close>: every failure, the \<open>Error\<close> it throws itself on a
  status that is not OK included, ends in its own \<open>catch\<close>, which returns \<open>[]\<close>.
\<close>

definition searchPlaces :: "http_outcome \<Rightarrow> jsval" where
  "searchPlaces outcome =
     (case outcome of
        NetworkError \<Rightarrow> Arr []
      | HttpResponse ok status body \<Rightarrow>
          if \<not> ok then Arr []
          else (case body of
                  None \<Rightarrow> Arr []
                | Some data \<Rightarrow>
                    (case get_property data ''results'' of
                       Inl e \<Rightarrow> Arr []
                     | Inr results \<Rightarrow> js_or results (Arr []))))"

section \<open>Map Session\<close>

text \<open>
  The state of a \<open>MapManager\<close>: \<open>this.map\<close>, \<open>None\<close> for \<open>null\<close> and otherwise the
  marker layers now on the map; \<open>this.markers\<close>; \<open>this.eventListeners\<close>, the callbacks
  of each event name in the order subscribed. A callback is known by a handle.
\<close>

record session =
  lmap :: "marker list option"
  markers :: "marker list"
  eventListeners :: "(string \<times> nat list) list"

text \<open>What \<open>emit\<close> hands to a callback.\<close>

datatype payload =
    SearchData string jsval
  | SearchErrorData string js_error
  | PlaceClickData latlng place_record

text \<open>
  \<open>MapManager.emit\<close>: the calls made, one per subscriber of the event, in order. An
  error a callback throws is caught and logged there, so \<open>emit\<close> itself raises nothing.
\<close>

definition emit :: "session \<Rightarrow> string \<Rightarrow> payload \<Rightarrow> (nat \<times> string \<times> payload) list" where
  "emit s event data =
     (case map_of (eventListeners s) event of
        None \<Rightarrow> []
      | Some callbacks \<Rightarrow> map (\<lambda>callback. (callback, event, data)) callbacks)"

text \<open>
  The loop of \<open>clearSearchMarkers\<close>: \<open>this.map.removeLayer(marker)\<close> per marker, a
  \<open>TypeError\<close> at the first marker when \<open>this.map\<close> is \<open>null\<close>.
\<close>

fun remove_layers :: "marker list option \<Rightarrow> marker list \<Rightarrow> js_error + marker list option" where
  "remove_layers m [] = Inr m"
| "remove_layers None (x # xs) = Inl TypeError"
| "remove_layers (Some layers) (x # xs) = remove_layers (Some (remove1 x layers)) xs"

definition clearSearchMarkers :: "session \<Rightarrow> js_error + session" where
  "clearSearchMarkers s =
     (case remove_layers (lmap s) (markers s) of
        Inl e \<Rightarrow> Inl e
      | Inr m \<Rightarrow> Inr (s\<lparr>lmap := m, markers := []\<rparr>))"

text \<open>
  The callback of \<open>results.forEach\<close> in \<open>search\<close>, over the results in order; the
  state comes back with the error when a step raises. \<open>addTo\<close> runs before the popup
  content is built, \<open>push\<close> after it.
\<close>

fun add_results :: "platform \<Rightarrow> session \<Rightarrow> jsval list \<Rightarrow> js_error option \<times> session" where
  "add_results P s [] = (None, s)"
| "add_results P s (result # rest) =
     (case get_property result ''lat'' of
        Inl e \<Rightarrow> (Some e, s)
      | Inr la \<Rightarrow>
          if \<not> truthy la then add_results P s rest
          else if \<not> truthy (property result ''lng'') then add_results P s rest
          else (case addMarker P (lmap s) la (property result ''lng'') of
                  Some e \<Rightarrow> (Some e, s)
                | None \<Rightarrow>
                    (case createSearchResultPopup P result of
                       Inl e \<Rightarrow>
                         (Some e,
                          s\<lparr>lmap := map_option
                               (\<lambda>layers. layers @
                                  [\<lparr>marker_lat = la, marker_lng = property result ''lng'',
                                    marker_popup = []\<rparr>])
                               (lmap s)\<rparr>)
                     | Inr content \<Rightarrow>
                         (let marker = \<lparr>marker_lat = la, marker_lng = property result ''lng'',
                                         marker_popup = content\<rparr>
                          in add_results P
                               (s\<lparr>lmap := map_option (\<lambda>layers. layers @ [marker]) (lmap s),
                                  markers := markers s @ [marker]\<rparr>)
                               rest))))"

text \<open>
  The \<open>try\<close> block of \<open>MapManager.search\<close> from the point where \<open>await\<close> hands back
  the results, up to the \<open>emit\<close>: the value to return or the error raised, with the
  state reached.
\<close>

definition search_body :: "platform \<Rightarrow> session \<Rightarrow> jsval \<Rightarrow> (js_error + jsval) \<times> session" where
  "search_body P s results =
     (case clearSearchMarkers s of
        Inl e \<Rightarrow> (Inl e, s)
      | Inr s1 \<Rightarrow>
          (case results of
             Arr rs \<Rightarrow>
               (case add_results P s1 rs of
                  (Some e, s2) \<Rightarrow> (Inl e, s2)
                | (None, s2) \<Rightarrow>
                    if rs \<noteq> []
                    then (case lmap s2 of
                            None \<Rightarrow> (Inl TypeError, s2)
                          | Some layers \<Rightarrow>
                              (case fitBounds P (markers s2) of
                                 Some e \<Rightarrow> (Inl e, s2)
                               | None \<Rightarrow> (Inr results, s2)))
                    else (Inr results, s2))
           | _ \<Rightarrow> (Inl TypeError, s1)))"

text \<open>
  \<open>MapManager.search\<close> after the \<open>await\<close>, on the state of that moment: the value
  returned, the calls to subscribers, the new state. The \<open>catch\<close> emits
  \<open>searchError\<close> and returns \<open>[]\<close>.
\<close>

definition search_resume ::
  "platform \<Rightarrow> session \<Rightarrow> string \<Rightarrow> jsval \<Rightarrow> jsval \<times> (nat \<times> string \<times> payload) list \<times> session" where
  "search_resume P s query results =
     (case search_body P s results of
        (Inr returned, s') \<Rightarrow> (returned, emit s' ''search'' (SearchData query results), s')
      | (Inl e, s') \<Rightarrow> (Arr [], emit s' ''searchError'' (SearchErrorData query e), s'))"

text \<open>
  \<open>MapManager.search\<close> before the \<open>await\<close>: \<open>options.center || this.map.getCenter()\<close>
  is all that can raise there; \<open>options\<close> defaults to \<open>{}\<close>.
\<close>

definition search_begin :: "session \<Rightarrow> jsval \<Rightarrow> js_error option" where
  "search_begin s options =
     (case get_property (default_to options (Obj [])) ''center'' of
        Inl e \<Rightarrow> Some e
      | Inr center \<Rightarrow>
          if truthy center then None
          else (case lmap s of None \<Rightarrow> Some TypeError | Some layers \<Rightarrow> None))"

text \<open>\<open>MapManager.search\<close> with nothing else running between request and response.\<close>

definition search ::
  "platform \<Rightarrow> session \<Rightarrow> string \<Rightarrow> jsval \<Rightarrow> http_outcome \<Rightarrow>
   jsval \<times> (nat \<times> string \<times> payload) list \<times> session" where
  "search P s query options outcome =
     (case search_begin s options of
        Some e \<Rightarrow> (Arr [], emit s ''searchError'' (SearchErrorData query e), s)
      | None \<Rightarrow> search_resume P s query (searchPlaces outcome))"

text \<open>\<open>MapManager.destroy\<close>.\<close>

definition destroy :: "session \<Rightarrow> js_error + session" where
  "destroy s =
     (case lmap s of
        None \<Rightarrow> Inr (s\<lparr>eventListeners := []\<rparr>)
      | Some layers \<Rightarrow>
          (case clearSearchMarkers s of
             Inl e \<Rightarrow> Inl e
           | Inr s1 \<Rightarrow> Inr (s1\<lparr>lmap := None, eventListeners := []\<rparr>)))"

text \<open>
  \<open>MapManager.handleMapClick\<close> after the \<open>await\<close>, on the state of that moment: the
  content the loading popup ends with, the calls to subscribers, the state.
\<close>

definition handleMapClick_resume ::
  "platform \<Rightarrow> session \<Rightarrow> lookup \<Rightarrow> lookup \<Rightarrow> real \<Rightarrow> real \<Rightarrow>
   string \<times> (nat \<times> string \<times> payload) list \<times> session" where
  "handleMapClick_resume P s nominatimLookup overpassLookup la lo =
     (case formatPlaceData (ApiManager_getPlaceDetails nominatimLookup overpassLookup) la lo of
        Inl e \<Rightarrow> (createErrorContent, [], s)
      | Inr formattedData \<Rightarrow>
          (case createPopupContent P formattedData of
             Inl e \<Rightarrow> (createErrorContent, [], s)
           | Inr content \<Rightarrow>
               (content,
                emit s ''placeClick'' (PlaceClickData \<lparr>lat = la, lng = lo\<rparr> formattedData),
                s)))"

section \<open>SDK Facade\<close>

text \<open>
  \<open>this.instances\<close>, a \<open>Map\<close> from container identifier to session, as the list of
  its entries.
\<close>

record facade =
  instances :: "(string \<times> session) list"

text \<open>\<open>Map.prototype.set\<close> and \<open>delete\<close>.\<close>

fun map_set :: "(string \<times> 'v) list \<Rightarrow> string \<Rightarrow> 'v \<Rightarrow> (string \<times> 'v) list" where
  "map_set [] k v = [(k, v)]"
| "map_set ((k', v') # es) k v = (if k' = k then (k, v) # es else (k', v') # map_set es k v)"

definition map_delete :: "(string \<times> 'v) list \<Rightarrow> string \<Rightarrow> (string \<times> 'v) list" where
  "map_delete es k = filter (\<lambda>e. fst e \<noteq> k) es"

text \<open>The message \<open>Map instance '${containerId}' not found\<close>.\<close>

definition not_found :: "string \<Rightarrow> js_error" where
  "not_found containerId =
     Error (''Map instance '' @ [CHR 0x27] @ containerId @ [CHR 0x27] @ '' not found'')"

text \<open>\<open>MapifyOS.search\<close>; the session is an object, so the registry sees its new state.\<close>

definition MapifyOS_search ::
  "platform \<Rightarrow> facade \<Rightarrow> string \<Rightarrow> string \<Rightarrow> jsval \<Rightarrow> http_outcome \<Rightarrow>
   (js_error + jsval) \<times> (nat \<times> string \<times> payload) list \<times> facade" where
  "MapifyOS_search P F containerId query options outcome =
     (case map_of (instances F) containerId of
        None \<Rightarrow> (Inl (not_found containerId), [], F)
      | Some mapInstance \<Rightarrow>
          (case search P mapInstance query options outcome of
             (returned, calls, mapInstance') \<Rightarrow>
               (Inr returned, calls,
                F\<lparr>instances := map_set (instances F) containerId mapInstance'\<rparr>)))"

text \<open>\<open>MapifyOS.showPopup\<close>: the content of the popup opened, or the error raised.\<close>

definition MapifyOS_showPopup ::
  "platform \<Rightarrow> facade \<Rightarrow> string \<Rightarrow> real \<Rightarrow> real \<Rightarrow> 'a popup_data_scheme \<Rightarrow> js_error + string" where
  "MapifyOS_showPopup P F containerId la lo data =
     (case map_of (instances F) containerId of
        None \<Rightarrow> Inl (not_found containerId)
      | Some mapInstance \<Rightarrow> createPopupContent P data)"

text \<open>
  \<open>MapifyOS.destroy\<close>: the work is inside \<open>if (mapInstance)\<close>, and there is no
  \<open>else\<close>.
\<close>

definition MapifyOS_destroy :: "facade \<Rightarrow> string \<Rightarrow> js_error + facade" where
  "MapifyOS_destroy F containerId =
     (case map_of (instances F) containerId of
        None \<Rightarrow> Inr F
      | Some mapInstance \<Rightarrow>
          (case destroy mapInstance of
             Inl e \<Rightarrow> Inl e
           | Inr destroyed \<Rightarrow> Inr (F\<lparr>instances := map_delete (instances F) containerId\<rparr>)))"

text \<open>
  A platform to evaluate on: \<open>ToString\<close> is not needed on strings, a marker cannot be
  added to a released map, and an empty group has no bounds to pad.
\<close>

definition sample_platform :: platform where
  "sample_platform =
     \<lparr>ToString = (\<lambda>v. Inl TypeError),
      addMarker = (\<lambda>m la lo. case m of None \<Rightarrow> Some TypeError | Some layers \<Rightarrow> None),
      fitBounds = (\<lambda>ms. if ms = [] then Some TypeError else None)\<rparr>"

section \<open>The data model of the specification\<close>

text \<open>
  A field of type \<open>string | absent\<close>: a string, \<open>undefined\<close> or \<open>null\<close>.
\<close>

definition string_or_absent :: "jsval \<Rightarrow> bool" where
  "string_or_absent v =
     (case v of Undefined \<Rightarrow> True | Null \<Rightarrow> True | Str s \<Rightarrow> True | _ \<Rightarrow> False)"

text \<open>
  Responses as the two services give them: the display string of the geocoder and
  the values of the category keys of the tag bag are strings where they are present.
\<close>

definition typed_responses :: "place_data \<Rightarrow> bool" where
  "typed_responses placeData =
     (string_or_absent (opt_property (nominatim placeData) ''display_name'') \<and>
      list_all (\<lambda>k. string_or_absent (property (resolved_tags placeData) k)) candidate_keys)"

text \<open>
  A search request that fails: no response, a status that is not OK, or a body that
  is not JSON.
\<close>

definition request_fails :: "http_outcome \<Rightarrow> bool" where
  "request_fails outcome =
     (case outcome of
        NetworkError \<Rightarrow> True
      | HttpResponse ok status body \<Rightarrow> \<not> ok \<or> body = None)"

text \<open>
  A search result as the backend gives it: an object whose \<open>address\<close>, \<open>type\<close>,
  \<open>phone\<close> and \<open>website\<close> are strings where they are present.
\<close>

definition typed_result :: "jsval \<Rightarrow> bool" where
  "typed_result result =
     (\<not> nullish result \<and>
      string_or_absent (property result ''address'') \<and>
      string_or_absent (property result ''type'') \<and>
      string_or_absent (property result ''phone'') \<and>
      string_or_absent (property result ''website''))"

section \<open>Sample responses\<close>

text \<open>
  A tag query answer with one tagged element, and the geocoder's answer when it finds
  nothing at the point: an object with an \<open>error\<close> message and neither \<open>name\<close>
  nor \<open>display_name\<close>.
\<close>

definition cafe_response :: jsval where
  "cafe_response =
     Obj [(''elements'',
       Arr [Obj [(''tags'', Obj [(''name'', Str ''Cafe Roma''), (''amenity'', Str ''cafe''),
                                 (''phone'', Str ''+1-555-0100'')])]])]"

definition error_response :: jsval where
  "error_response = Obj [(''error'', Str ''Unable to geocode'')]"

section \<open>Properties of the Category Formatter\<close>

lemma categoryMap_candidate_keys:
  "categoryMap tags = map (\<lambda>k. (k, property tags k)) candidate_keys"
  by (simp add: categoryMap_def candidate_keys_def)

lemma scan_entries_none:
  "\<forall>e \<in> set es. \<not> truthy (snd e) \<Longrightarrow> scan_entries es = Inr ''Location''"
proof (induction es)
  case Nil
  then show ?case by simp
next
  case (Cons e es)
  obtain k x where e: "e = (k, x)" by (cases e)
  with Cons.prems have "\<not> truthy x" by simp
  moreover from Cons have "scan_entries es = Inr ''Location''" by simp
  ultimately show ?case using e by simp
qed

lemma scan_entries_first:
  assumes "i < length es" and "snd (es ! i) = Str v" and "v \<noteq> []"
    and "\<And>j. j < i \<Longrightarrow> \<not> truthy (snd (es ! j))"
  shows "scan_entries es = Inr (capitalize_words (replace_underscores v))"
  using assms
proof (induction es arbitrary: i)
  case Nil
  then show ?case by simp
next
  case (Cons e es)
  obtain k x where e: "e = (k, x)" by (cases e)
  show ?case
  proof (cases i)
    case 0
    with Cons.prems e show ?thesis by simp
  next
    case (Suc n)
    with Cons.prems(4) [of 0] e have nx: "\<not> truthy x" by simp
    have "scan_entries es = Inr (capitalize_words (replace_underscores v))"
    proof (rule Cons.IH [of n])
      show "n < length es" using Cons.prems(1) Suc by simp
      show "snd (es ! n) = Str v" using Cons.prems(2) Suc by simp
      show "v \<noteq> []" by (rule Cons.prems(3))
      show "\<not> truthy (snd (es ! j))" if "j < n" for j
        using Cons.prems(4) [of "Suc j"] that Suc by simp
    qed
    with nx e show ?thesis by simp
  qed
qed

lemma capitalize_from_length: "length (capitalize_from p s) = length s"
  by (induction s arbitrary: p) auto

lemma capitalize_from_nth:
  "i < length s \<Longrightarrow>
   capitalize_from p s ! i =
     (if is_word (s ! i) \<and> \<not> (if i = 0 then p else is_word (s ! (i - 1)))
      then toUpperCase (s ! i) else s ! i)"
proof (induction s arbitrary: p i)
  case Nil
  then show ?case by simp
next
  case (Cons c cs)
  show ?case
  proof (cases i)
    case 0
    then show ?thesis by simp
  next
    case (Suc n)
    with Cons.prems have n: "n < length cs" by simp
    show ?thesis
    proof (cases n)
      case 0
      with Suc n Cons.IH [of 0 "is_word c"] show ?thesis by simp
    next
      case (Suc m)
      with \<open>i = Suc n\<close> n Cons.IH [of n "is_word c"] show ?thesis by simp
    qed
  qed
qed

lemma toUpperCase_not_underscore: "c \<noteq> CHR ''_'' \<Longrightarrow> toUpperCase c \<noteq> CHR ''_''"
proof -
  assume c: "c \<noteq> CHR ''_''"
  show ?thesis
  proof (cases "map_of (zip lower_case upper_case) c")
    case None
    with c show ?thesis by (simp add: toUpperCase_def)
  next
    case (Some u)
    then have "(c, u) \<in> set (zip lower_case upper_case)" by (rule map_of_SomeD)
    then have "u \<in> set upper_case" by (rule set_zip_rightD)
    then have "u \<noteq> CHR ''_''" by (auto simp: upper_case_def)
    with Some show ?thesis by (simp add: toUpperCase_def)
  qed
qed

lemma capitalize_from_no_underscore:
  "CHR ''_'' \<notin> set s \<Longrightarrow> CHR ''_'' \<notin> set (capitalize_from p s)"
proof (induction s arbitrary: p)
  case Nil
  then show ?case by simp
next
  case (Cons c cs)
  then have c: "c \<noteq> CHR ''_''" and cs: "CHR ''_'' \<notin> set cs" by auto
  from c have "toUpperCase c \<noteq> CHR ''_''" by (rule toUpperCase_not_underscore)
  with c have "(if is_word c \<and> \<not> p then toUpperCase c else c) \<noteq> CHR ''_''" by simp
  moreover have "CHR ''_'' \<notin> set (capitalize_from (is_word c) cs)" using cs by (rule Cons.IH)
  ultimately show ?case by auto
qed

lemma replace_underscores_no_underscore: "CHR ''_'' \<notin> set (replace_underscores s)"
  by (auto simp: replace_underscores_def)

lemma title_no_underscore: "CHR ''_'' \<notin> set (capitalize_words (replace_underscores s))"
  by (simp add: capitalize_words_def capitalize_from_no_underscore
      replace_underscores_no_underscore)

lemma title_length: "length (capitalize_words (replace_underscores s)) = length s"
  by (simp add: capitalize_words_def capitalize_from_length replace_underscores_def)

lemma title_convenience_store:
  "capitalize_words (replace_underscores ''convenience_store'') = ''Convenience Store''"
  by (simp add: capitalize_words_def replace_underscores_def is_word_def toUpperCase_def
      lower_case_def upper_case_def)

lemma replace_underscores_nth:
  "i < length v \<Longrightarrow>
   replace_underscores v ! i = (if v ! i = CHR ''_'' then CHR '' '' else v ! i)"
  by (simp add: replace_underscores_def)

lemma title_nth:
  assumes "i < length v"
  shows "capitalize_words (replace_underscores v) ! i =
     (if is_word (replace_underscores v ! i) \<and>
         (i = 0 \<or> \<not> is_word (replace_underscores v ! (i - 1)))
      then toUpperCase (replace_underscores v ! i) else replace_underscores v ! i)"
proof -
  have "i < length (replace_underscores v)"
    using assms by (simp add: replace_underscores_def)
  then show ?thesis
    unfolding capitalize_words_def by (simp add: capitalize_from_nth)
qed

lemma formatCategory_none:
  assumes "\<forall>k \<in> set candidate_keys. \<not> truthy (property tags k)"
  shows "formatCategory tags = Inr ''Location''"
proof -
  have "\<forall>e \<in> set (categoryMap tags). \<not> truthy (snd e)"
    using assms by (auto simp: categoryMap_candidate_keys)
  then have "scan_entries (categoryMap tags) = Inr ''Location''"
    by (rule scan_entries_none)
  then show ?thesis by (simp add: formatCategory_def)
qed

lemma formatCategory_first:
  assumes i: "i < length candidate_keys"
    and v: "property tags (candidate_keys ! i) = Str v" "v \<noteq> []"
    and before: "\<forall>j<i. \<not> truthy (property tags (candidate_keys ! j))"
  shows "formatCategory tags = Inr (capitalize_words (replace_underscores v))"
proof -
  have t: "truthy tags"
  proof (cases tags)
    case (Obj kvs)
    then show ?thesis by simp
  qed (use v in auto)
  have "scan_entries (categoryMap tags) = Inr (capitalize_words (replace_underscores v))"
  proof (rule scan_entries_first [of i])
    show "i < length (categoryMap tags)" using i by (simp add: categoryMap_candidate_keys)
    show "snd (categoryMap tags ! i) = Str v" using i v by (simp add: categoryMap_candidate_keys)
    show "v \<noteq> []" by (rule v)
    show "\<not> truthy (snd (categoryMap tags ! j))" if "j < i" for j
      using that i before by (simp add: categoryMap_candidate_keys)
  qed
  with t show ?thesis by (simp add: formatCategory_def)
qed

lemma formatCategory_shop:
  assumes "property tags ''shop'' = Str ''convenience_store''"
    and "\<not> truthy (property tags ''amenity'')"
  shows "formatCategory tags = Inr ''Convenience Store''"
proof -
  have "formatCategory tags = Inr (capitalize_words (replace_underscores ''convenience_store''))"
  proof (rule formatCategory_first [of 1])
    show "1 < length candidate_keys" by (simp add: candidate_keys_def)
    show "property tags (candidate_keys ! 1) = Str ''convenience_store''"
      using assms(1) by (simp add: candidate_keys_def)
    show "''convenience_store'' \<noteq> []" by simp
    show "\<forall>j<1. \<not> truthy (property tags (candidate_keys ! j))"
      using assms(2) by (simp add: candidate_keys_def)
  qed
  then show ?thesis by (simp only: title_convenience_store)
qed

text \<open>
  C5: the Category Formatter takes the candidate keys in the order amenity, shop,
  building, leisure, tourism, highway, office, craft. When none of them has a value
  (a non-empty one) it returns "Location". Otherwise it returns the value of the first
  key that has one, formatted: the result has the length of the value, every
  underscore has become a space, and a letter that starts a word (a run of ASCII
  letters and digits) is in upper case, every other character unchanged. A tag bag
  with shop = "convenience_store" and no amenity gives "Convenience Store", whatever
  the keys after shop hold.
\<close>

theorem formatCategory_priority:
  "((\<forall>k \<in> set candidate_keys. \<not> truthy (property tags k)) \<longrightarrow>
      formatCategory tags = Inr ''Location'') \<and>
   (\<forall>i v. i < length candidate_keys \<and> property tags (candidate_keys ! i) = Str v \<and> v \<noteq> [] \<and>
      (\<forall>j<i. \<not> truthy (property tags (candidate_keys ! j))) \<longrightarrow>
      formatCategory tags = Inr (capitalize_words (replace_underscores v))) \<and>
   (\<forall>v. length (capitalize_words (replace_underscores v)) = length v \<and>
      (\<forall>i<length v.
         replace_underscores v ! i = (if v ! i = CHR ''_'' then CHR '' '' else v ! i) \<and>
         capitalize_words (replace_underscores v) ! i =
           (if is_word (replace_underscores v ! i) \<and>
               (i = 0 \<or> \<not> is_word (replace_underscores v ! (i - 1)))
            then toUpperCase (replace_underscores v ! i) else replace_underscores v ! i))) \<and>
   (property tags ''shop'' = Str ''convenience_store'' \<and> \<not> truthy (property tags ''amenity'') \<longrightarrow>
      formatCategory tags = Inr ''Convenience Store'')"
proof (intro conjI allI impI)
  fix i v
  assume "i < length candidate_keys \<and> property tags (candidate_keys ! i) = Str v \<and> v \<noteq> [] \<and>
      (\<forall>j<i. \<not> truthy (property tags (candidate_keys ! j)))"
  then show "formatCategory tags = Inr (capitalize_words (replace_underscores v))"
    using formatCategory_first [of i tags v] by blast
qed (simp_all add: formatCategory_none formatCategory_shop title_length
    replace_underscores_nth title_nth)

theorem formatCategory_priority_witness:
  "formatCategory (Obj []) = Inr ''Location'' \<and>
   formatCategory (Obj [(''craft'', Str ''brewery''), (''shop'', Str ''convenience_store''),
                        (''building'', Str ''retail'')]) = Inr ''Convenience Store'' \<and>
   formatCategory (Obj [(''office'', Str ''it''), (''tourism'', Str ''theme_park'')])
     = Inr (capitalize_words (replace_underscores ''theme_park'')) \<and>
   capitalize_words (replace_underscores ''theme_park'') ! 6 = CHR ''P''"
proof -
  let ?a = "Obj []"
  let ?b = "Obj [(''craft'', Str ''brewery''), (''shop'', Str ''convenience_store''),
                 (''building'', Str ''retail'')]"
  let ?c = "Obj [(''office'', Str ''it''), (''tourism'', Str ''theme_park'')]"
  have a: "\<forall>k \<in> set candidate_keys. \<not> truthy (property ?a k)" by simp
  have b: "property ?b ''shop'' = Str ''convenience_store'' \<and> \<not> truthy (property ?b ''amenity'')"
    by simp
  have c: "4 < length candidate_keys \<and> property ?c (candidate_keys ! 4) = Str ''theme_park'' \<and>
     ''theme_park'' \<noteq> [] \<and> (\<forall>j<4. \<not> truthy (property ?c (candidate_keys ! j)))"
    by (simp add: candidate_keys_def less_Suc_eq eval_nat_numeral)
  have d: "6 < length ''theme_park''" by simp
  from formatCategory_priority [of ?a] a have "formatCategory ?a = Inr ''Location''" by blast
  moreover from formatCategory_priority [of ?b] b
  have "formatCategory ?b = Inr ''Convenience Store''" by blast
  moreover from formatCategory_priority [of ?c] c
  have "formatCategory ?c = Inr (capitalize_words (replace_underscores ''theme_park''))" by blast
  moreover from formatCategory_priority [of ?c] d
  have "capitalize_words (replace_underscores ''theme_park'') ! 6 =
    (if is_word (replace_underscores ''theme_park'' ! 6) \<and>
               (6 = (0::nat) \<or> \<not> is_word (replace_underscores ''theme_park'' ! (6 - 1)))
            then toUpperCase (replace_underscores ''theme_park'' ! 6) else replace_underscores ''theme_park'' ! 6)"
    by blast
  then have "capitalize_words (replace_underscores ''theme_park'') ! 6 = CHR ''P''"
    by (simp add: replace_underscores_def is_word_def toUpperCase_def
        lower_case_def upper_case_def)
  ultimately show ?thesis by blast
qed

lemma scan_entries_typed:
  "\<forall>e \<in> set es. string_or_absent (snd e) \<Longrightarrow> \<exists>c. scan_entries es = Inr c"
proof (induction es)
  case Nil
  then show ?case by simp
next
  case (Cons e es)
  obtain k x where e: "e = (k, x)" by (cases e)
  from Cons.prems e have x: "string_or_absent x" by simp
  from Cons have rest: "\<exists>c. scan_entries es = Inr c" by simp
  show ?case
  proof (cases x)
    case (Str s)
    with e rest show ?thesis by simp
  qed (use x e rest in \<open>simp_all add: string_or_absent_def\<close>)
qed

lemma formatCategory_typed:
  assumes "list_all (\<lambda>k. string_or_absent (property tags k)) candidate_keys"
  shows "\<exists>c. formatCategory tags = Inr c"
proof -
  have "\<forall>e \<in> set (categoryMap tags). string_or_absent (snd e)"
    using assms by (auto simp: categoryMap_candidate_keys list_all_iff)
  then have "\<exists>c. scan_entries (categoryMap tags) = Inr c" by (rule scan_entries_typed)
  then show ?thesis by (auto simp: formatCategory_def)
qed

lemma split_first_typed:
  "string_or_absent v \<Longrightarrow>
   split_first v = Inr (case v of Str d \<Rightarrow> Str (first_segment d) | _ \<Rightarrow> Undefined)"
  by (cases v) (simp_all add: split_first_def string_or_absent_def)

lemma resolve_name_typed:
  assumes "string_or_absent (opt_property nominatimData ''display_name'')"
  shows "resolve_name tags nominatimData =
     Inr (if truthy (property tags ''name'') then property tags ''name''
          else if truthy (opt_property nominatimData ''name'')
          then opt_property nominatimData ''name''
          else (case opt_property nominatimData ''display_name'' of
                  Str d \<Rightarrow> if first_segment d \<noteq> [] then Str (first_segment d)
                           else Str ''Unknown Location''
                | _ \<Rightarrow> Str ''Unknown Location''))"
proof (cases "opt_property nominatimData ''display_name''")
  case (Str d)
  then show ?thesis by (simp add: resolve_name_def split_first_def js_or_def)
qed (use assms in \<open>simp_all add: resolve_name_def split_first_def js_or_def string_or_absent_def\<close>)

lemma formatPlaceData_Inr:
  assumes "formatPlaceData placeData la lo = Inr r"
  shows "\<exists>c. formatCategory (resolved_tags placeData) = Inr c \<and>
     resolve_name (resolved_tags placeData) (nominatim placeData) = Inr (name r) \<and>
     address r = js_or (opt_property (nominatim placeData) ''display_name'')
                   (Str ''Address not available'') \<and>
     type r = Str c \<and>
     phone r = js_or (js_or (property (resolved_tags placeData) ''phone'')
                 (property (resolved_tags placeData) ''contact:phone'')) (Str ''Not available'') \<and>
     website r = js_or (js_or (js_or (property (resolved_tags placeData) ''website'')
                   (property (resolved_tags placeData) ''contact:website''))
                   (property (resolved_tags placeData) ''url'')) Null \<and>
     hours r = js_or (property (resolved_tags placeData) ''opening_hours'')
                 (Str ''Not available'') \<and>
     coordinates r = \<lparr>lat = la, lng = lo\<rparr>"
  using assms by (auto simp: formatPlaceData_def Let_def split: sum.splits)

lemma formatPlaceData_typed:
  assumes "typed_responses placeData"
  shows "\<exists>r. formatPlaceData placeData la lo = Inr r"
proof -
  from assms obtain c where c: "formatCategory (resolved_tags placeData) = Inr c"
    using formatCategory_typed [of "resolved_tags placeData"]
    by (auto simp: typed_responses_def)
  from assms have "string_or_absent (opt_property (nominatim placeData) ''display_name'')"
    by (simp add: typed_responses_def)
  then have "\<exists>n. resolve_name (resolved_tags placeData) (nominatim placeData) = Inr n"
    by (simp add: resolve_name_typed)
  with c show ?thesis by (auto simp: formatPlaceData_def Let_def)
qed

lemma first_segment_prefix:
  "CHR '','' \<notin> set (first_segment d) \<and>
   (\<exists>rest. d = first_segment d @ rest \<and> (rest = [] \<or> hd rest = CHR '',''))"
proof -
  have a: "CHR '','' \<notin> set (first_segment d)"
    unfolding first_segment_def by (induction d) auto
  have b: "d = first_segment d @ dropWhile (\<lambda>c. c \<noteq> CHR '','') d"
    by (simp add: first_segment_def)
  have c: "dropWhile (\<lambda>c. c \<noteq> CHR '','') d = [] \<or> hd (dropWhile (\<lambda>c. c \<noteq> CHR '','') d) = CHR '',''"
    using hd_dropWhile [of "\<lambda>c. c \<noteq> CHR '',''" d] by auto
  from a b c show ?thesis by blast
qed

lemma cafe_place_data:
  "ApiManager_getPlaceDetails (Responds a) (Responds cafe_response) =
     \<lparr>nominatim = a,
      overpass = Obj [(''tags'', Obj [(''name'', Str ''Cafe Roma''), (''amenity'', Str ''cafe''),
                                      (''phone'', Str ''+1-555-0100'')])]\<rparr>"
  by (simp add: ApiManager_getPlaceDetails_def cafe_response_def get_property_def js_or_def)

text \<open>
  C6: on responses of the data model, the Place Resolver returns a record whose name
  is the "name" of the tag bag, that is of the tags of the element the tag query
  gave, when that has a value; else the geocoder's short name when that has a value;
  else the first comma-segment of the geocoder's display string, when there is a
  display string and the segment is not empty; else "Unknown Location". A value is
  present when it is truthy, for a string when it is not empty. The first
  comma-segment is the part of the display string before its first comma.
\<close>

theorem name_precedence:
  assumes "typed_responses placeData"
  shows "\<exists>r. formatPlaceData placeData la lo = Inr r \<and>
     name r =
       (if truthy (property (js_or (opt_property (overpass placeData) ''tags'') (Obj [])) ''name'')
        then property (js_or (opt_property (overpass placeData) ''tags'') (Obj [])) ''name''
        else if truthy (opt_property (nominatim placeData) ''name'')
        then opt_property (nominatim placeData) ''name''
        else (case opt_property (nominatim placeData) ''display_name'' of
                Str d \<Rightarrow> if first_segment d \<noteq> [] then Str (first_segment d)
                         else Str ''Unknown Location''
              | _ \<Rightarrow> Str ''Unknown Location'')) \<and>
     (\<forall>d. CHR '','' \<notin> set (first_segment d) \<and>
        (\<exists>rest. d = first_segment d @ rest \<and> (rest = [] \<or> hd rest = CHR '','')))"
proof -
  from assms obtain r where r: "formatPlaceData placeData la lo = Inr r"
    using formatPlaceData_typed by blast
  from assms have dn: "string_or_absent (opt_property (nominatim placeData) ''display_name'')"
    by (simp add: typed_responses_def)
  from r have rn: "resolve_name (resolved_tags placeData) (nominatim placeData) = Inr (name r)"
    using formatPlaceData_Inr by blast
  from rn [symmetric] resolve_name_typed [OF dn, of "resolved_tags placeData"]
  have "Inr (name r) = (Inr
       (if truthy (property (resolved_tags placeData) ''name'')
        then property (resolved_tags placeData) ''name''
        else if truthy (opt_property (nominatim placeData) ''name'')
        then opt_property (nominatim placeData) ''name''
        else (case opt_property (nominatim placeData) ''display_name'' of
                Str d \<Rightarrow> if first_segment d \<noteq> [] then Str (first_segment d)
                         else Str ''Unknown Location''
              | _ \<Rightarrow> Str ''Unknown Location'')) :: js_error + jsval)"
    by (rule trans)
  then have "name r =
       (if truthy (property (resolved_tags placeData) ''name'')
        then property (resolved_tags placeData) ''name''
        else if truthy (opt_property (nominatim placeData) ''name'')
        then opt_property (nominatim placeData) ''name''
        else (case opt_property (nominatim placeData) ''display_name'' of
                Str d \<Rightarrow> if first_segment d \<noteq> [] then Str (first_segment d)
                         else Str ''Unknown Location''
              | _ \<Rightarrow> Str ''Unknown Location''))"
    by (simp only: sum.inject)
  then have "name r =
       (if truthy (property (js_or (opt_property (overpass placeData) ''tags'') (Obj [])) ''name'')
        then property (js_or (opt_property (overpass placeData) ''tags'') (Obj [])) ''name''
        else if truthy (opt_property (nominatim placeData) ''name'')
        then opt_property (nominatim placeData) ''name''
        else (case opt_property (nominatim placeData) ''display_name'' of
                Str d \<Rightarrow> if first_segment d \<noteq> [] then Str (first_segment d)
                         else Str ''Unknown Location''
              | _ \<Rightarrow> Str ''Unknown Location''))"
    unfolding resolved_tags_def .
  moreover have "\<forall>d. CHR '','' \<notin> set (first_segment d) \<and>
        (\<exists>rest. d = first_segment d @ rest \<and> (rest = [] \<or> hd rest = CHR '',''))"
    using first_segment_prefix by (intro allI)
  ultimately show ?thesis using r by (intro exI conjI)
qed

theorem name_precedence_witness:
  "typed_responses
     (ApiManager_getPlaceDetails
        (Responds (Obj [(''name'', Str ''Roma''), (''display_name'', Str ''12 High St, Town'')]))
        (Responds cafe_response)) \<and>
   (\<exists>r. formatPlaceData
     (ApiManager_getPlaceDetails
        (Responds (Obj [(''name'', Str ''Roma''), (''display_name'', Str ''12 High St, Town'')]))
        (Responds cafe_response)) 1 2 = Inr r \<and>
        name r = Str ''Cafe Roma'') \<and>
   typed_responses
     \<lparr>nominatim = Obj [(''name'', Str ''Roma''), (''display_name'', Str ''12 High St, Town'')],
      overpass = Obj [(''tags'', Obj [(''amenity'', Str ''cafe'')])]\<rparr> \<and>
   (\<exists>r. formatPlaceData
     \<lparr>nominatim = Obj [(''name'', Str ''Roma''), (''display_name'', Str ''12 High St, Town'')],
      overpass = Obj [(''tags'', Obj [(''amenity'', Str ''cafe'')])]\<rparr> 1 2 = Inr r \<and>
        name r = Str ''Roma'') \<and>
   typed_responses
     \<lparr>nominatim = Obj [(''display_name'', Str ''12 High St, Town'')],
      overpass = Obj [(''tags'', Obj [(''amenity'', Str ''cafe'')])]\<rparr> \<and>
   (\<exists>r. formatPlaceData
     \<lparr>nominatim = Obj [(''display_name'', Str ''12 High St, Town'')],
      overpass = Obj [(''tags'', Obj [(''amenity'', Str ''cafe'')])]\<rparr> 1 2 = Inr r \<and>
        name r = Str ''12 High St'') \<and>
   typed_responses
     \<lparr>nominatim = Obj [(''display_name'', Str '', Town'')],
      overpass = Obj [(''tags'', Obj [(''amenity'', Str ''cafe'')])]\<rparr> \<and>
   (\<exists>r. formatPlaceData
     \<lparr>nominatim = Obj [(''display_name'', Str '', Town'')],
      overpass = Obj [(''tags'', Obj [(''amenity'', Str ''cafe'')])]\<rparr> 1 2 = Inr r \<and>
        name r = Str ''Unknown Location'')"
proof -

  let ?a = "(ApiManager_getPlaceDetails
        (Responds (Obj [(''name'', Str ''Roma''), (''display_name'', Str ''12 High St, Town'')]))
        (Responds cafe_response))"
  have ta: "typed_responses ?a"
    by (simp add: cafe_place_data typed_responses_def resolved_tags_def opt_property_def
        js_or_def candidate_keys_def string_or_absent_def)
  from name_precedence [OF ta, of 1 2] obtain ra where
    alla: "formatPlaceData ?a 1 2 = Inr ra \<and>
     name ra =
       (if truthy (property (js_or (opt_property (overpass ?a) ''tags'') (Obj [])) ''name'')
        then property (js_or (opt_property (overpass ?a) ''tags'') (Obj [])) ''name''
        else if truthy (opt_property (nominatim ?a) ''name'')
        then opt_property (nominatim ?a) ''name''
        else (case opt_property (nominatim ?a) ''display_name'' of
                Str d \<Rightarrow> if first_segment d \<noteq> [] then Str (first_segment d)
                         else Str ''Unknown Location''
              | _ \<Rightarrow> Str ''Unknown Location'')) \<and>
     (\<forall>d. CHR '','' \<notin> set (first_segment d) \<and>
        (\<exists>rest. d = first_segment d @ rest \<and> (rest = [] \<or> hd rest = CHR '','')))" ..
  from alla have fa: "formatPlaceData ?a 1 2 = Inr ra" by (rule conjunct1)
  from alla have "name ra =
       (if truthy (property (js_or (opt_property (overpass ?a) ''tags'') (Obj [])) ''name'')
        then property (js_or (opt_property (overpass ?a) ''tags'') (Obj [])) ''name''
        else if truthy (opt_property (nominatim ?a) ''name'')
        then opt_property (nominatim ?a) ''name''
        else (case opt_property (nominatim ?a) ''display_name'' of
                Str d \<Rightarrow> if first_segment d \<noteq> [] then Str (first_segment d)
                         else Str ''Unknown Location''
              | _ \<Rightarrow> Str ''Unknown Location''))"
    by (rule conjunct1 [OF conjunct2])
  then have na: "name ra = Str ''Cafe Roma''"
    by (simp add: cafe_place_data opt_property_def js_or_def)
  from fa na have ea: "\<exists>r. formatPlaceData ?a 1 2 = Inr r \<and> name r = Str ''Cafe Roma''"
    by (intro exI conjI)

  let ?b = "\<lparr>nominatim = Obj [(''name'', Str ''Roma''), (''display_name'', Str ''12 High St, Town'')],
      overpass = Obj [(''tags'', Obj [(''amenity'', Str ''cafe'')])]\<rparr>"
  have tb: "typed_responses ?b"
    by (simp add: typed_responses_def resolved_tags_def opt_property_def js_or_def
        candidate_keys_def string_or_absent_def)
  from name_precedence [OF tb, of 1 2] obtain rb where
    allb: "formatPlaceData ?b 1 2 = Inr rb \<and>
     name rb =
       (if truthy (property (js_or (opt_property (overpass ?b) ''tags'') (Obj [])) ''name'')
        then property (js_or (opt_property (overpass ?b) ''tags'') (Obj [])) ''name''
        else if truthy (opt_property (nominatim ?b) ''name'')
        then opt_property (nominatim ?b) ''name''
        else (case opt_property (nominatim ?b) ''display_name'' of
                Str d \<Rightarrow> if first_segment d \<noteq> [] then Str (first_segment d)
                         else Str ''Unknown Location''
              | _ \<Rightarrow> Str ''Unknown Location'')) \<and>
     (\<forall>d. CHR '','' \<notin> set (first_segment d) \<and>
        (\<exists>rest. d = first_segment d @ rest \<and> (rest = [] \<or> hd rest = CHR '','')))" ..
  from allb have fb: "formatPlaceData ?b 1 2 = Inr rb" by (rule conjunct1)
  from allb have "name rb =
       (if truthy (property (js_or (opt_property (overpass ?b) ''tags'') (Obj [])) ''name'')
        then property (js_or (opt_property (overpass ?b) ''tags'') (Obj [])) ''name''
        else if truthy (opt_property (nominatim ?b) ''name'')
        then opt_property (nominatim ?b) ''name''
        else (case opt_property (nominatim ?b) ''display_name'' of
                Str d \<Rightarrow> if first_segment d \<noteq> [] then Str (first_segment d)
                         else Str ''Unknown Location''
              | _ \<Rightarrow> Str ''Unknown Location''))"
    by (rule conjunct1 [OF conjunct2])
  then have nb: "name rb = Str ''Roma''"
    by (simp add: opt_property_def js_or_def first_segment_def)
  from fb nb have eb: "\<exists>r. formatPlaceData ?b 1 2 = Inr r \<and> name r = Str ''Roma''"
    by (intro exI conjI)

  let ?c = "\<lparr>nominatim = Obj [(''display_name'', Str ''12 High St, Town'')],
      overpass = Obj [(''tags'', Obj [(''amenity'', Str ''cafe'')])]\<rparr>"
  have tc: "typed_responses ?c"
    by (simp add: typed_responses_def resolved_tags_def opt_property_def js_or_def
        candidate_keys_def string_or_absent_def)
  from name_precedence [OF tc, of 1 2] obtain rc where
    allc: "formatPlaceData ?c 1 2 = Inr rc \<and>
     name rc =
       (if truthy (property (js_or (opt_property (overpass ?c) ''tags'') (Obj [])) ''name'')
        then property (js_or (opt_property (overpass ?c) ''tags'') (Obj [])) ''name''
        else if truthy (opt_property (nominatim ?c) ''name'')
        then opt_property (nominatim ?c) ''name''
        else (case opt_property (nominatim ?c) ''display_name'' of
                Str d \<Rightarrow> if first_segment d \<noteq> [] then Str (first_segment d)
                         else Str ''Unknown Location''
              | _ \<Rightarrow> Str ''Unknown Location'')) \<and>
     (\<forall>d. CHR '','' \<notin> set (first_segment d) \<and>
        (\<exists>rest. d = first_segment d @ rest \<and> (rest = [] \<or> hd rest = CHR '','')))" ..
  from allc have fc: "formatPlaceData ?c 1 2 = Inr rc" by (rule conjunct1)
  from allc have "name rc =
       (if truthy (property (js_or (opt_property (overpass ?c) ''tags'') (Obj [])) ''name'')
        then property (js_or (opt_property (overpass ?c) ''tags'') (Obj [])) ''name''
        else if truthy (opt_property (nominatim ?c) ''name'')
        then opt_property (nominatim ?c) ''name''
        else (case opt_property (nominatim ?c) ''display_name'' of
                Str d \<Rightarrow> if first_segment d \<noteq> [] then Str (first_segment d)
                         else Str ''Unknown Location''
              | _ \<Rightarrow> Str ''Unknown Location''))"
    by (rule conjunct1 [OF conjunct2])
  then have nc: "name rc = Str ''12 High St''"
    by (simp add: opt_property_def js_or_def first_segment_def)
  from fc nc have ec: "\<exists>r. formatPlaceData ?c 1 2 = Inr r \<and> name r = Str ''12 High St''"
    by (intro exI conjI)

  let ?d = "\<lparr>nominatim = Obj [(''display_name'', Str '', Town'')],
      overpass = Obj [(''tags'', Obj [(''amenity'', Str ''cafe'')])]\<rparr>"
  have td: "typed_responses ?d"
    by (simp add: typed_responses_def resolved_tags_def opt_property_def js_or_def
        candidate_keys_def string_or_absent_def)
  from name_precedence [OF td, of 1 2] obtain rd where
    alld: "formatPlaceData ?d 1 2 = Inr rd \<and>
     name rd =
       (if truthy (property (js_or (opt_property (overpass ?d) ''tags'') (Obj [])) ''name'')
        then property (js_or (opt_property (overpass ?d) ''tags'') (Obj [])) ''name''
        else if truthy (opt_property (nominatim ?d) ''name'')
        then opt_property (nominatim ?d) ''name''
        else (case opt_property (nominatim ?d) ''display_name'' of
                Str d \<Rightarrow> if first_segment d \<noteq> [] then Str (first_segment d)
                         else Str ''Unknown Location''
              | _ \<Rightarrow> Str ''Unknown Location'')) \<and>
     (\<forall>d. CHR '','' \<notin> set (first_segment d) \<and>
        (\<exists>rest. d = first_segment d @ rest \<and> (rest = [] \<or> hd rest = CHR '','')))" ..
  from alld have fd: "formatPlaceData ?d 1 2 = Inr rd" by (rule conjunct1)
  from alld have "name rd =
       (if truthy (property (js_or (opt_property (overpass ?d) ''tags'') (Obj [])) ''name'')
        then property (js_or (opt_property (overpass ?d) ''tags'') (Obj [])) ''name''
        else if truthy (opt_property (nominatim ?d) ''name'')
        then opt_property (nominatim ?d) ''name''
        else (case opt_property (nominatim ?d) ''display_name'' of
                Str d \<Rightarrow> if first_segment d \<noteq> [] then Str (first_segment d)
                         else Str ''Unknown Location''
              | _ \<Rightarrow> Str ''Unknown Location''))"
    by (rule conjunct1 [OF conjunct2])
  then have nd: "name rd = Str ''Unknown Location''"
    by (simp add: opt_property_def js_or_def first_segment_def)
  from fd nd have ed: "\<exists>r. formatPlaceData ?d 1 2 = Inr r \<and> name r = Str ''Unknown Location''"
    by (intro exI conjI)

  from ta ea tb eb tc ec td ed show ?thesis by (intro conjI)
qed

text \<open>
  C7: on responses of the data model, the Place Resolver returns a record whose phone
  is the value of "phone", else of "contact:phone", else "Not available"; whose hours
  are the value of "opening_hours", else "Not available"; and whose website is the
  value of "website", else of "contact:website", else of "url", else null. A value is
  present when it is truthy, for a string when it is not empty.
\<close>

theorem contact_precedence:
  assumes "typed_responses placeData"
  shows "\<exists>r. formatPlaceData placeData la lo = Inr r \<and>
     phone r =
       (if truthy (property (resolved_tags placeData) ''phone'')
        then property (resolved_tags placeData) ''phone''
        else if truthy (property (resolved_tags placeData) ''contact:phone'')
        then property (resolved_tags placeData) ''contact:phone''
        else Str ''Not available'') \<and>
     hours r =
       (if truthy (property (resolved_tags placeData) ''opening_hours'')
        then property (resolved_tags placeData) ''opening_hours''
        else Str ''Not available'') \<and>
     website r =
       (if truthy (property (resolved_tags placeData) ''website'')
        then property (resolved_tags placeData) ''website''
        else if truthy (property (resolved_tags placeData) ''contact:website'')
        then property (resolved_tags placeData) ''contact:website''
        else if truthy (property (resolved_tags placeData) ''url'')
        then property (resolved_tags placeData) ''url''
        else Null)"
proof -
  from assms obtain r where r: "formatPlaceData placeData la lo = Inr r"
    using formatPlaceData_typed by blast
  from formatPlaceData_Inr [OF r] have
    p: "phone r = js_or (js_or (property (resolved_tags placeData) ''phone'')
                 (property (resolved_tags placeData) ''contact:phone'')) (Str ''Not available'')" and
    w: "website r = js_or (js_or (js_or (property (resolved_tags placeData) ''website'')
                   (property (resolved_tags placeData) ''contact:website''))
                   (property (resolved_tags placeData) ''url'')) Null" and
    h: "hours r = js_or (property (resolved_tags placeData) ''opening_hours'')
                 (Str ''Not available'')"
    by blast+
  have "phone r =
       (if truthy (property (resolved_tags placeData) ''phone'')
        then property (resolved_tags placeData) ''phone''
        else if truthy (property (resolved_tags placeData) ''contact:phone'')
        then property (resolved_tags placeData) ''contact:phone''
        else Str ''Not available'')"
    unfolding p by (simp add: js_or_def)
  moreover have "hours r =
       (if truthy (property (resolved_tags placeData) ''opening_hours'')
        then property (resolved_tags placeData) ''opening_hours''
        else Str ''Not available'')"
    unfolding h by (simp add: js_or_def)
  moreover have "website r =
       (if truthy (property (resolved_tags placeData) ''website'')
        then property (resolved_tags placeData) ''website''
        else if truthy (property (resolved_tags placeData) ''contact:website'')
        then property (resolved_tags placeData) ''contact:website''
        else if truthy (property (resolved_tags placeData) ''url'')
        then property (resolved_tags placeData) ''url''
        else Null)"
    unfolding w by (simp add: js_or_def)
  ultimately show ?thesis using r by (intro exI conjI)
qed

theorem contact_precedence_witness:
  "typed_responses \<lparr>nominatim = Null,
                    overpass = Obj [(''tags'', Obj [(''contact:phone'', Str ''+1-555-0100''),
                                                    (''url'', Str ''http://example.org'')])]\<rparr> \<and>
   (\<exists>r. formatPlaceData \<lparr>nominatim = Null,
                    overpass = Obj [(''tags'', Obj [(''contact:phone'', Str ''+1-555-0100''),
                                                    (''url'', Str ''http://example.org'')])]\<rparr> 1 2 = Inr r \<and>
        phone r = Str ''+1-555-0100'' \<and> hours r = Str ''Not available'' \<and>
        website r = Str ''http://example.org'')"
proof -
  let ?pd = "\<lparr>nominatim = Null,
              overpass = Obj [(''tags'', Obj [(''contact:phone'', Str ''+1-555-0100''),
                                              (''url'', Str ''http://example.org'')])]\<rparr>"
  have t: "typed_responses ?pd"
    by (simp add: typed_responses_def resolved_tags_def opt_property_def js_or_def
        candidate_keys_def string_or_absent_def)
  have tags: "resolved_tags ?pd = Obj [(''contact:phone'', Str ''+1-555-0100''),
                                       (''url'', Str ''http://example.org'')]"
    by (simp add: resolved_tags_def opt_property_def js_or_def)
  from contact_precedence [OF t, of 1 2] show ?thesis
    unfolding tags using t by simp
qed

lemma scan_entries_source:
  "scan_entries es = Inr c \<Longrightarrow>
   c = ''Location'' \<or>
   (\<exists>e \<in> set es. \<exists>v. snd e = Str v \<and> v \<noteq> [] \<and>
      c = capitalize_words (replace_underscores v))"
proof (induction es)
  case Nil
  then show ?case by simp
next
  case (Cons e es)
  obtain k x where e: "e = (k, x)" by (cases e)
  show ?case
  proof (cases "truthy x")
    case False
    with Cons e show ?thesis by auto
  next
    case True
    show ?thesis
    proof (cases x)
      case (Str s)
      with True Cons.prems e show ?thesis by auto
    qed (use True Cons.prems e in simp_all)
  qed
qed

lemma formatCategory_source:
  assumes "formatCategory tags = Inr c"
  shows "c = ''Location'' \<or>
     (\<exists>k \<in> set candidate_keys. \<exists>v. property tags k = Str v \<and> v \<noteq> [] \<and>
        c = capitalize_words (replace_underscores v))"
proof (cases "truthy tags")
  case False
  with assms show ?thesis by (simp add: formatCategory_def)
next
  case True
  with assms have "scan_entries (categoryMap tags) = Inr c" by (simp add: formatCategory_def)
  from scan_entries_source [OF this] show ?thesis
    by (auto simp: categoryMap_candidate_keys)
qed

lemma formatCategory_shape:
  assumes "formatCategory tags = Inr c"
  shows "c \<noteq> [] \<and> CHR ''_'' \<notin> set c"
proof -
  from formatCategory_source [OF assms] show ?thesis
  proof
    assume "c = ''Location''"
    then show ?thesis by simp
  next
    assume "\<exists>k \<in> set candidate_keys. \<exists>v. property tags k = Str v \<and> v \<noteq> [] \<and>
        c = capitalize_words (replace_underscores v)"
    then obtain v where v: "v \<noteq> []" and c: "c = capitalize_words (replace_underscores v)"
      by blast
    from v have "length c \<noteq> 0" unfolding c by (simp add: title_length)
    then have "c \<noteq> []" by simp
    moreover have "CHR ''_'' \<notin> set c" unfolding c by (rule title_no_underscore)
    ultimately show ?thesis by simp
  qed
qed

lemma facade_type:
  "type (MapifyOS_getPlaceDetails nominatimLookup overpassLookup la lo) = Str ''Location'' \<or>
   (\<exists>overpassData elements.
      overpassLookup = Responds overpassData \<and>
      get_property overpassData ''elements'' = Inr elements \<and>
      type (MapifyOS_getPlaceDetails nominatimLookup overpassLookup la lo) =
        js_or (js_or (js_or (js_or
          (property (js_or (opt_property (opt_first elements) ''tags'') (Obj [])) ''amenity'')
          (property (js_or (opt_property (opt_first elements) ''tags'') (Obj [])) ''shop''))
          (property (js_or (opt_property (opt_first elements) ''tags'') (Obj [])) ''office''))
          (property (js_or (opt_property (opt_first elements) ''tags'') (Obj [])) ''building''))
          (Str ''Building''))"
  by (simp add: MapifyOS_getPlaceDetails_def fallback_record_def Let_def
      split: lookup.splits sum.splits)

lemma facade_rejects:
  assumes "nominatimLookup = Rejects \<or> overpassLookup = Rejects"
  shows "MapifyOS_getPlaceDetails nominatimLookup overpassLookup la lo = fallback_record la lo"
  using assms by (auto simp: MapifyOS_getPlaceDetails_def split: lookup.splits)

lemma facade_null_body:
  assumes "nullish nominatimData \<or> nullish overpassData"
  shows "MapifyOS_getPlaceDetails (Responds nominatimData) (Responds overpassData) la lo =
     fallback_record la lo"
proof (cases "nullish overpassData")
  case True
  then show ?thesis by (simp add: MapifyOS_getPlaceDetails_def get_property_def)
next
  case False
  with assms have n: "nullish nominatimData" by simp
  then have "get_property nominatimData k = Inl TypeError" for k
    by (simp add: get_property_def)
  then show ?thesis
    by (simp add: MapifyOS_getPlaceDetails_def facade_name_def Let_def split: sum.splits)
qed

lemma facade_name_typed:
  assumes "\<not> nullish nominatimData"
    and "string_or_absent (property nominatimData ''display_name'')"
  shows "\<exists>n. facade_name tags nominatimData = Inr n"
proof -
  from assms(2) obtain seg where "split_first (property nominatimData ''display_name'') = Inr seg"
    using split_first_typed by blast
  with assms(1) show ?thesis by (simp add: facade_name_def get_property_def)
qed

lemma facade_responds:
  assumes "\<not> nullish nominatimData" and "\<not> nullish overpassData"
    and "string_or_absent (property nominatimData ''display_name'')"
  shows "type (MapifyOS_getPlaceDetails (Responds nominatimData) (Responds overpassData) la lo) =
     js_or (js_or (js_or (js_or
       (property (js_or (opt_property (opt_first (property overpassData ''elements'')) ''tags'')
          (Obj [])) ''amenity'')
       (property (js_or (opt_property (opt_first (property overpassData ''elements'')) ''tags'')
          (Obj [])) ''shop''))
       (property (js_or (opt_property (opt_first (property overpassData ''elements'')) ''tags'')
          (Obj [])) ''office''))
       (property (js_or (opt_property (opt_first (property overpassData ''elements'')) ''tags'')
          (Obj [])) ''building''))
       (Str ''Building'')"
proof -
  let ?tags = "js_or (opt_property (opt_first (property overpassData ''elements'')) ''tags'') (Obj [])"
  from assms(1,3) obtain n where n: "facade_name ?tags nominatimData = Inr n"
    using facade_name_typed by blast
  from assms(1) have d: "get_property nominatimData ''display_name'' =
      Inr (property nominatimData ''display_name'')"
    by (simp add: get_property_def)
  from assms(2) have e: "get_property overpassData ''elements'' =
      Inr (property overpassData ''elements'')"
    by (simp add: get_property_def)
  show ?thesis by (simp add: MapifyOS_getPlaceDetails_def Let_def e n d)
qed

text \<open>
  C1 (as amended): a record the click pipeline's formatPlaceData returns has as type
  a string that is not empty, holds no underscore, and is "Location" or the formatted
  value of one of the candidate keys of the tag bag. The facade's getPlaceDetails
  does not format. Its type is "Location" when a lookup fails: when either request
  rejects, or either body is null. When both lookups answer with a body that is not
  null and the geocoder's display string is a string or absent, its type is the value
  as it stands of the first of amenity, shop, office, building that has one in the
  tag bag of the first element, else "Building". In every case it is "Location" or
  that value.
\<close>

theorem category_invariant:
  "(formatPlaceData placeData la lo = Inr r \<longrightarrow>
      (\<exists>c. type r = Str c \<and> c \<noteq> [] \<and> CHR ''_'' \<notin> set c \<and>
         (c = ''Location'' \<or>
          (\<exists>k \<in> set candidate_keys. \<exists>v.
             property (resolved_tags placeData) k = Str v \<and> v \<noteq> [] \<and>
             c = capitalize_words (replace_underscores v))))) \<and>
   (type (MapifyOS_getPlaceDetails nominatimLookup overpassLookup la lo) = Str ''Location'' \<or>
    (\<exists>overpassData elements.
       overpassLookup = Responds overpassData \<and>
       get_property overpassData ''elements'' = Inr elements \<and>
       type (MapifyOS_getPlaceDetails nominatimLookup overpassLookup la lo) =
         js_or (js_or (js_or (js_or
           (property (js_or (opt_property (opt_first elements) ''tags'') (Obj [])) ''amenity'')
           (property (js_or (opt_property (opt_first elements) ''tags'') (Obj [])) ''shop''))
           (property (js_or (opt_property (opt_first elements) ''tags'') (Obj [])) ''office''))
           (property (js_or (opt_property (opt_first elements) ''tags'') (Obj [])) ''building''))
           (Str ''Building''))) \<and>
   (nominatimLookup = Rejects \<or> overpassLookup = Rejects \<longrightarrow>
      type (MapifyOS_getPlaceDetails nominatimLookup overpassLookup la lo) = Str ''Location'') \<and>
   (nullish nominatimData \<or> nullish overpassData \<longrightarrow>
      type (MapifyOS_getPlaceDetails (Responds nominatimData) (Responds overpassData) la lo) =
        Str ''Location'') \<and>
   (\<not> nullish nominatimData \<and> \<not> nullish overpassData \<and>
    string_or_absent (property nominatimData ''display_name'') \<longrightarrow>
      type (MapifyOS_getPlaceDetails (Responds nominatimData) (Responds overpassData) la lo) =
        js_or (js_or (js_or (js_or
          (property (js_or (opt_property (opt_first (property overpassData ''elements'')) ''tags'')
             (Obj [])) ''amenity'')
          (property (js_or (opt_property (opt_first (property overpassData ''elements'')) ''tags'')
             (Obj [])) ''shop''))
          (property (js_or (opt_property (opt_first (property overpassData ''elements'')) ''tags'')
             (Obj [])) ''office''))
          (property (js_or (opt_property (opt_first (property overpassData ''elements'')) ''tags'')
             (Obj [])) ''building''))
          (Str ''Building''))"
proof -
  have first: "formatPlaceData placeData la lo = Inr r \<longrightarrow>
      (\<exists>c. type r = Str c \<and> c \<noteq> [] \<and> CHR ''_'' \<notin> set c \<and>
         (c = ''Location'' \<or>
          (\<exists>k \<in> set candidate_keys. \<exists>v.
             property (resolved_tags placeData) k = Str v \<and> v \<noteq> [] \<and>
             c = capitalize_words (replace_underscores v))))"
  proof
    assume r: "formatPlaceData placeData la lo = Inr r"
    from formatPlaceData_Inr [OF r] obtain c where
      c: "formatCategory (resolved_tags placeData) = Inr c" and t: "type r = Str c"
      by blast
    from formatCategory_shape [OF c] formatCategory_source [OF c] t
    show "\<exists>c. type r = Str c \<and> c \<noteq> [] \<and> CHR ''_'' \<notin> set c \<and>
         (c = ''Location'' \<or>
          (\<exists>k \<in> set candidate_keys. \<exists>v.
             property (resolved_tags placeData) k = Str v \<and> v \<noteq> [] \<and>
             c = capitalize_words (replace_underscores v)))"
      by blast
  qed
  have third: "nominatimLookup = Rejects \<or> overpassLookup = Rejects \<longrightarrow>
      type (MapifyOS_getPlaceDetails nominatimLookup overpassLookup la lo) = Str ''Location''"
    by (simp add: facade_rejects fallback_record_def)
  have fourth: "nullish nominatimData \<or> nullish overpassData \<longrightarrow>
      type (MapifyOS_getPlaceDetails (Responds nominatimData) (Responds overpassData) la lo) =
        Str ''Location''"
    by (simp add: facade_null_body fallback_record_def)
  have fifth: "\<not> nullish nominatimData \<and> \<not> nullish overpassData \<and>
    string_or_absent (property nominatimData ''display_name'') \<longrightarrow>
      type (MapifyOS_getPlaceDetails (Responds nominatimData) (Responds overpassData) la lo) =
        js_or (js_or (js_or (js_or
          (property (js_or (opt_property (opt_first (property overpassData ''elements'')) ''tags'')
             (Obj [])) ''amenity'')
          (property (js_or (opt_property (opt_first (property overpassData ''elements'')) ''tags'')
             (Obj [])) ''shop''))
          (property (js_or (opt_property (opt_first (property overpassData ''elements'')) ''tags'')
             (Obj [])) ''office''))
          (property (js_or (opt_property (opt_first (property overpassData ''elements'')) ''tags'')
             (Obj [])) ''building''))
          (Str ''Building'')"
    using facade_responds [of nominatimData overpassData la lo] by (intro impI) (elim conjE)
  from first facade_type [of nominatimLookup overpassLookup la lo] third fourth fifth
  show ?thesis by (intro conjI)
qed

theorem category_invariant_witness:
  "formatPlaceData \<lparr>nominatim = Null,
                    overpass = Obj [(''tags'', Obj [(''amenity'', Str ''fast_food'')])]\<rparr> 1 2 =
     Inr \<lparr>name = Str ''Unknown Location'', address = Str ''Address not available'',
          type = Str ''Fast Food'', phone = Str ''Not available'', website = Null,
          hours = Str ''Not available'', coordinates = \<lparr>lat = 1, lng = 2\<rparr>\<rparr> \<and>
   (\<exists>c. Str ''Fast Food'' = Str c \<and> c \<noteq> [] \<and> CHR ''_'' \<notin> set c) \<and>
   type (MapifyOS_getPlaceDetails Rejects (Responds cafe_response) 1 2) = Str ''Location'' \<and>
   type (MapifyOS_getPlaceDetails (Responds Null) (Responds cafe_response) 1 2) = Str ''Location'' \<and>
   type (MapifyOS_getPlaceDetails (Responds error_response) (Responds cafe_response) 1 2) =
     Str ''cafe'' \<and>
   type (MapifyOS_getPlaceDetails (Responds error_response) (Responds (Obj [])) 1 2) =
     Str ''Building''"
proof -
  let ?pd = "\<lparr>nominatim = Null,
              overpass = Obj [(''tags'', Obj [(''amenity'', Str ''fast_food'')])]\<rparr>"
  let ?r = "\<lparr>name = Str ''Unknown Location'', address = Str ''Address not available'',
          type = Str ''Fast Food'', phone = Str ''Not available'', website = Null,
          hours = Str ''Not available'', coordinates = \<lparr>lat = 1, lng = 2\<rparr>\<rparr>"
  have r: "formatPlaceData ?pd 1 2 = Inr ?r"
    by (simp add: formatPlaceData_def resolved_tags_def opt_property_def js_or_def
        resolve_name_def split_first_def formatCategory_def categoryMap_def
        capitalize_words_def replace_underscores_def is_word_def toUpperCase_def
        lower_case_def upper_case_def)
  from category_invariant [of ?pd 1 2 ?r] r
  have "\<exists>c. type ?r = Str c \<and> c \<noteq> [] \<and> CHR ''_'' \<notin> set c \<and>
         (c = ''Location'' \<or>
          (\<exists>k \<in> set candidate_keys. \<exists>v.
             property (resolved_tags ?pd) k = Str v \<and> v \<noteq> [] \<and>
             c = capitalize_words (replace_underscores v)))"
    by (rule mp [OF conjunct1])
  then have shape: "\<exists>c. Str ''Fast Food'' = Str c \<and> c \<noteq> [] \<and> CHR ''_'' \<notin> set c"
    by auto
  have "Rejects = Rejects \<or> Responds cafe_response = Rejects \<longrightarrow>
      type (MapifyOS_getPlaceDetails Rejects (Responds cafe_response) 1 2) = Str ''Location''"
    using category_invariant [of ?pd 1 2 ?r Rejects "Responds cafe_response"]
    by (rule conjunct1 [OF conjunct2 [OF conjunct2]])
  then have rej: "type (MapifyOS_getPlaceDetails Rejects (Responds cafe_response) 1 2) =
      Str ''Location''"
    by simp
  have "nullish Null \<or> nullish cafe_response \<longrightarrow>
      type (MapifyOS_getPlaceDetails (Responds Null) (Responds cafe_response) 1 2) =
        Str ''Location''"
    using category_invariant [of ?pd 1 2 ?r Rejects Rejects Null cafe_response]
    by (rule conjunct1 [OF conjunct2 [OF conjunct2 [OF conjunct2]]])
  then have nul: "type (MapifyOS_getPlaceDetails (Responds Null) (Responds cafe_response) 1 2) =
      Str ''Location''"
    by simp
  have typed: "\<not> nullish error_response \<and> \<not> nullish cafe_response \<and>
      string_or_absent (property error_response ''display_name'')"
    by (simp add: error_response_def cafe_response_def string_or_absent_def)
  have typed': "\<not> nullish error_response \<and> \<not> nullish (Obj []) \<and>
      string_or_absent (property error_response ''display_name'')"
    by (simp add: error_response_def string_or_absent_def)
  from typed category_invariant [of ?pd 1 2 ?r Rejects Rejects error_response cafe_response]
  have "type (MapifyOS_getPlaceDetails (Responds error_response) (Responds cafe_response) 1 2) =
        js_or (js_or (js_or (js_or
          (property (js_or (opt_property (opt_first (property cafe_response ''elements'')) ''tags'')
             (Obj [])) ''amenity'')
          (property (js_or (opt_property (opt_first (property cafe_response ''elements'')) ''tags'')
             (Obj [])) ''shop''))
          (property (js_or (opt_property (opt_first (property cafe_response ''elements'')) ''tags'')
             (Obj [])) ''office''))
          (property (js_or (opt_property (opt_first (property cafe_response ''elements'')) ''tags'')
             (Obj [])) ''building''))
          (Str ''Building'')"
    by (rule mp [OF conjunct2 [OF conjunct2 [OF conjunct2 [OF conjunct2]]], rotated])
  then have raw: "type (MapifyOS_getPlaceDetails (Responds error_response) (Responds cafe_response) 1 2) =
      Str ''cafe''"
    by (simp add: cafe_response_def opt_property_def js_or_def)
  from typed' category_invariant [of ?pd 1 2 ?r Rejects Rejects error_response "Obj []"]
  have "type (MapifyOS_getPlaceDetails (Responds error_response) (Responds (Obj [])) 1 2) =
        js_or (js_or (js_or (js_or
          (property (js_or (opt_property (opt_first (property (Obj []) ''elements'')) ''tags'')
             (Obj [])) ''amenity'')
          (property (js_or (opt_property (opt_first (property (Obj []) ''elements'')) ''tags'')
             (Obj [])) ''shop''))
          (property (js_or (opt_property (opt_first (property (Obj []) ''elements'')) ''tags'')
             (Obj [])) ''office''))
          (property (js_or (opt_property (opt_first (property (Obj []) ''elements'')) ''tags'')
             (Obj [])) ''building''))
          (Str ''Building'')"
    by (rule mp [OF conjunct2 [OF conjunct2 [OF conjunct2 [OF conjunct2]]], rotated])
  then have bld: "type (MapifyOS_getPlaceDetails (Responds error_response) (Responds (Obj [])) 1 2) =
      Str ''Building''"
    by (simp add: opt_property_def js_or_def)
  from r shape rej nul raw bld show ?thesis by (intro conjI)
qed

theorem facade_category_counterexample:
  "type (MapifyOS_getPlaceDetails (Responds (Obj []))
      (Responds (Obj [(''elements'',
         Arr [Obj [(''tags'', Obj [(''amenity'', Str ''fast_food'')])]])])) 1 2) =
   Str ''fast_food''"
  by (simp add: MapifyOS_getPlaceDetails_def get_property_def opt_property_def js_or_def
      facade_name_def split_first_def)

lemma js_or_truthy: "truthy b \<Longrightarrow> truthy (js_or a b)"
  by (simp add: js_or_def)

lemma js_or_Null: "js_or a Null = Null \<or> truthy (js_or a Null)"
  by (simp add: js_or_def)

lemma resolve_name_truthy:
  assumes "resolve_name tags nominatimData = Inr n"
  shows "truthy n"
proof (cases "truthy (property tags ''name'')")
  case True
  with assms show ?thesis by (simp add: resolve_name_def)
next
  case False
  show ?thesis
  proof (cases "truthy (opt_property nominatimData ''name'')")
    case True
    with False assms show ?thesis by (simp add: resolve_name_def)
  next
    case no_short: False
    from False no_short assms obtain segment where
      "n = js_or segment (Str ''Unknown Location'')"
      by (auto simp: resolve_name_def split: sum.splits)
    then show ?thesis by (simp add: js_or_truthy)
  qed
qed

lemma overpass_independent:
  "overpass (ApiManager_getPlaceDetails (Responds a) overpassLookup) =
   overpass (ApiManager_getPlaceDetails (Responds b) overpassLookup)"
  by (simp add: ApiManager_getPlaceDetails_def split: lookup.splits sum.splits)

lemma rejected_place_data:
  "ApiManager_getPlaceDetails Rejects overpassLookup = \<lparr>nominatim = Null, overpass = Null\<rparr>"
  "ApiManager_getPlaceDetails nominatimLookup Rejects = \<lparr>nominatim = Null, overpass = Null\<rparr>"
  by (simp_all add: ApiManager_getPlaceDetails_def split: lookup.splits)

lemma formatPlaceData_nulls:
  "formatPlaceData \<lparr>nominatim = Null, overpass = Null\<rparr> la lo =
     Inr \<lparr>name = Str ''Unknown Location'', address = Str ''Address not available'',
          type = Str ''Location'', phone = Str ''Not available'', website = Null,
          hours = Str ''Not available'', coordinates = \<lparr>lat = la, lng = lo\<rparr>\<rparr>"
  by (simp add: formatPlaceData_def resolved_tags_def opt_property_def js_or_def
      resolve_name_def split_first_def formatCategory_def categoryMap_def)

lemma formatPlaceData_complete:
  assumes r: "formatPlaceData placeData la lo = Inr r"
  shows "coordinates r = \<lparr>lat = la, lng = lo\<rparr> \<and> truthy (name r) \<and> truthy (address r) \<and>
     truthy (type r) \<and> truthy (phone r) \<and> truthy (hours r) \<and>
     (website r = Null \<or> truthy (website r))"
proof -
  from formatPlaceData_Inr [OF r] obtain c where
    c: "formatCategory (resolved_tags placeData) = Inr c" and
    n: "resolve_name (resolved_tags placeData) (nominatim placeData) = Inr (name r)" and
    a: "address r = js_or (opt_property (nominatim placeData) ''display_name'')
                   (Str ''Address not available'')" and
    t: "type r = Str c" and
    p: "phone r = js_or (js_or (property (resolved_tags placeData) ''phone'')
                 (property (resolved_tags placeData) ''contact:phone'')) (Str ''Not available'')" and
    w: "website r = js_or (js_or (js_or (property (resolved_tags placeData) ''website'')
                   (property (resolved_tags placeData) ''contact:website''))
                   (property (resolved_tags placeData) ''url'')) Null" and
    h: "hours r = js_or (property (resolved_tags placeData) ''opening_hours'')
                 (Str ''Not available'')" and
    co: "coordinates r = \<lparr>lat = la, lng = lo\<rparr>"
    by blast
  have "truthy (name r)" using n by (rule resolve_name_truthy)
  moreover have "truthy (address r)" unfolding a by (simp add: js_or_truthy)
  moreover have "truthy (type r)" using formatCategory_shape [OF c] t by simp
  moreover have "truthy (phone r)" unfolding p by (simp add: js_or_truthy)
  moreover have "truthy (hours r)" unfolding h by (simp add: js_or_truthy)
  moreover have "website r = Null \<or> truthy (website r)" unfolding w by (rule js_or_Null)
  ultimately show ?thesis using co by (intro conjI)
qed

text \<open>
  C2 (as amended): when the reverse-geocode lookup or the tag query rejects, the
  results of both are dropped and every field takes its fallback: the tags are not
  used when the reverse geocoding fails. When both respond, the geocoder's answer
  bears on the name and the address only: type, phone, website and hours are the
  same whatever it holds. On responses of the data model the pipeline does not raise:
  it returns a record with the input coordinates, with name, address, type, phone
  and hours truthy (a value or a sentinel), and with a website that is null or truthy.
\<close>

theorem lookup_failure_policy:
  "formatPlaceData (ApiManager_getPlaceDetails Rejects overpassLookup) la lo =
     Inr \<lparr>name = Str ''Unknown Location'', address = Str ''Address not available'',
          type = Str ''Location'', phone = Str ''Not available'', website = Null,
          hours = Str ''Not available'', coordinates = \<lparr>lat = la, lng = lo\<rparr>\<rparr> \<and>
   formatPlaceData (ApiManager_getPlaceDetails nominatimLookup Rejects) la lo =
     Inr \<lparr>name = Str ''Unknown Location'', address = Str ''Address not available'',
          type = Str ''Location'', phone = Str ''Not available'', website = Null,
          hours = Str ''Not available'', coordinates = \<lparr>lat = la, lng = lo\<rparr>\<rparr> \<and>
   (formatPlaceData (ApiManager_getPlaceDetails (Responds a) overpassLookup) la lo = Inr r \<and>
    formatPlaceData (ApiManager_getPlaceDetails (Responds b) overpassLookup) la lo = Inr r' \<longrightarrow>
      type r = type r' \<and> phone r = phone r' \<and> website r = website r' \<and> hours r = hours r') \<and>
   (typed_responses (ApiManager_getPlaceDetails nominatimLookup overpassLookup) \<longrightarrow>
      (\<exists>r. formatPlaceData (ApiManager_getPlaceDetails nominatimLookup overpassLookup) la lo = Inr r \<and>
         coordinates r = \<lparr>lat = la, lng = lo\<rparr> \<and> truthy (name r) \<and> truthy (address r) \<and>
         truthy (type r) \<and> truthy (phone r) \<and> truthy (hours r) \<and>
         (website r = Null \<or> truthy (website r))))"
proof -
  have first: "formatPlaceData (ApiManager_getPlaceDetails Rejects overpassLookup) la lo =
     Inr \<lparr>name = Str ''Unknown Location'', address = Str ''Address not available'',
          type = Str ''Location'', phone = Str ''Not available'', website = Null,
          hours = Str ''Not available'', coordinates = \<lparr>lat = la, lng = lo\<rparr>\<rparr>"
    by (simp only: rejected_place_data formatPlaceData_nulls)
  have second: "formatPlaceData (ApiManager_getPlaceDetails nominatimLookup Rejects) la lo =
     Inr \<lparr>name = Str ''Unknown Location'', address = Str ''Address not available'',
          type = Str ''Location'', phone = Str ''Not available'', website = Null,
          hours = Str ''Not available'', coordinates = \<lparr>lat = la, lng = lo\<rparr>\<rparr>"
    by (simp only: rejected_place_data formatPlaceData_nulls)
  have third: "formatPlaceData (ApiManager_getPlaceDetails (Responds a) overpassLookup) la lo = Inr r \<and>
    formatPlaceData (ApiManager_getPlaceDetails (Responds b) overpassLookup) la lo = Inr r' \<longrightarrow>
      type r = type r' \<and> phone r = phone r' \<and> website r = website r' \<and> hours r = hours r'"
  proof
    assume both: "formatPlaceData (ApiManager_getPlaceDetails (Responds a) overpassLookup) la lo = Inr r \<and>
      formatPlaceData (ApiManager_getPlaceDetails (Responds b) overpassLookup) la lo = Inr r'"
    have tags: "resolved_tags (ApiManager_getPlaceDetails (Responds a) overpassLookup) =
          resolved_tags (ApiManager_getPlaceDetails (Responds b) overpassLookup)"
      unfolding resolved_tags_def by (simp only: overpass_independent [of a overpassLookup b])
    from both have ra: "formatPlaceData (ApiManager_getPlaceDetails (Responds a) overpassLookup) la lo = Inr r"
      and rb: "formatPlaceData (ApiManager_getPlaceDetails (Responds b) overpassLookup) la lo = Inr r'"
      by simp_all
    from formatPlaceData_Inr [OF ra] formatPlaceData_Inr [OF rb]
    show "type r = type r' \<and> phone r = phone r' \<and> website r = website r' \<and> hours r = hours r'"
      unfolding tags by auto
  qed
  have fourth: "typed_responses (ApiManager_getPlaceDetails nominatimLookup overpassLookup) \<longrightarrow>
      (\<exists>r. formatPlaceData (ApiManager_getPlaceDetails nominatimLookup overpassLookup) la lo = Inr r \<and>
         coordinates r = \<lparr>lat = la, lng = lo\<rparr> \<and> truthy (name r) \<and> truthy (address r) \<and>
         truthy (type r) \<and> truthy (phone r) \<and> truthy (hours r) \<and>
         (website r = Null \<or> truthy (website r)))"
  proof
    assume "typed_responses (ApiManager_getPlaceDetails nominatimLookup overpassLookup)"
    then obtain r where
      r: "formatPlaceData (ApiManager_getPlaceDetails nominatimLookup overpassLookup) la lo = Inr r"
      using formatPlaceData_typed by blast
    from formatPlaceData_complete [OF r] r
    show "\<exists>r. formatPlaceData (ApiManager_getPlaceDetails nominatimLookup overpassLookup) la lo = Inr r \<and>
           coordinates r = \<lparr>lat = la, lng = lo\<rparr> \<and> truthy (name r) \<and> truthy (address r) \<and>
           truthy (type r) \<and> truthy (phone r) \<and> truthy (hours r) \<and>
           (website r = Null \<or> truthy (website r))"
      by blast
  qed
  from first second third fourth show ?thesis by (intro conjI)
qed

lemma cafe_record:
  "formatPlaceData (ApiManager_getPlaceDetails (Responds error_response) (Responds cafe_response)) 1 2 =
     Inr \<lparr>name = Str ''Cafe Roma'', address = Str ''Address not available'',
          type = Str ''Cafe'', phone = Str ''+1-555-0100'', website = Null,
          hours = Str ''Not available'', coordinates = \<lparr>lat = 1, lng = 2\<rparr>\<rparr>"
  unfolding cafe_place_data
  by (simp add: formatPlaceData_def resolved_tags_def opt_property_def js_or_def
        resolve_name_def split_first_def formatCategory_def categoryMap_def
        capitalize_words_def replace_underscores_def is_word_def toUpperCase_def
        lower_case_def upper_case_def error_response_def)

theorem lookup_failure_policy_witness:
  "typed_responses (ApiManager_getPlaceDetails (Responds error_response) (Responds cafe_response)) \<and>
   formatPlaceData (ApiManager_getPlaceDetails (Responds error_response) (Responds cafe_response)) 1 2 =
     Inr \<lparr>name = Str ''Cafe Roma'', address = Str ''Address not available'',
          type = Str ''Cafe'', phone = Str ''+1-555-0100'', website = Null,
          hours = Str ''Not available'', coordinates = \<lparr>lat = 1, lng = 2\<rparr>\<rparr> \<and>
   (\<exists>r. formatPlaceData (ApiManager_getPlaceDetails (Responds error_response) (Responds cafe_response)) 1 2 = Inr r \<and>
         coordinates r = \<lparr>lat = 1, lng = 2\<rparr> \<and> truthy (name r) \<and> truthy (address r) \<and>
         truthy (type r) \<and> truthy (phone r) \<and> truthy (hours r) \<and>
         (website r = Null \<or> truthy (website r)))"
proof -
  let ?pd = "ApiManager_getPlaceDetails (Responds error_response) (Responds cafe_response)"
  have t: "typed_responses ?pd"
    unfolding cafe_place_data
    by (simp add: typed_responses_def resolved_tags_def opt_property_def js_or_def
        candidate_keys_def string_or_absent_def error_response_def)
  have imp: "typed_responses ?pd \<longrightarrow>
      (\<exists>r. formatPlaceData ?pd 1 2 = Inr r \<and>
         coordinates r = \<lparr>lat = 1, lng = 2\<rparr> \<and> truthy (name r) \<and> truthy (address r) \<and>
         truthy (type r) \<and> truthy (phone r) \<and> truthy (hours r) \<and>
         (website r = Null \<or> truthy (website r)))"
    using lookup_failure_policy [of "Responds cafe_response" 1 2 "Responds error_response"]
    by (rule conjunct2 [OF conjunct2 [OF conjunct2]])
  from imp t have "\<exists>r. formatPlaceData ?pd 1 2 = Inr r \<and>
         coordinates r = \<lparr>lat = 1, lng = 2\<rparr> \<and> truthy (name r) \<and> truthy (address r) \<and>
         truthy (type r) \<and> truthy (phone r) \<and> truthy (hours r) \<and>
         (website r = Null \<or> truthy (website r))"
    by (rule mp)
  with t cafe_record show ?thesis by (intro conjI)
qed

theorem geocode_failure_counterexample:
  "formatPlaceData (ApiManager_getPlaceDetails Rejects (Responds cafe_response)) 1 2 =
     Inr \<lparr>name = Str ''Unknown Location'', address = Str ''Address not available'',
          type = Str ''Location'', phone = Str ''Not available'', website = Null,
          hours = Str ''Not available'', coordinates = \<lparr>lat = 1, lng = 2\<rparr>\<rparr>"
  by (simp add: ApiManager_getPlaceDetails_def formatPlaceData_def resolved_tags_def
      opt_property_def js_or_def resolve_name_def split_first_def formatCategory_def
      categoryMap_def)

text \<open>
  C8 (as amended): for a container identifier that the registry does not hold,
  search and showPopup raise an error whose message names the identifier, and leave
  the registry as it is; destroy returns without an error and leaves the registry as
  it is.
\<close>

theorem unknown_identifier:
  assumes "map_of (instances F) containerId = None"
  shows "MapifyOS_search P F containerId query options outcome =
           (Inl (Error (''Map instance '' @ [CHR 0x27] @ containerId @ [CHR 0x27] @ '' not found'')),
            [], F) \<and>
         MapifyOS_showPopup P F containerId la lo data =
           Inl (Error (''Map instance '' @ [CHR 0x27] @ containerId @ [CHR 0x27] @ '' not found'')) \<and>
         MapifyOS_destroy F containerId = Inr F"
  using assms
  by (simp add: MapifyOS_search_def MapifyOS_showPopup_def MapifyOS_destroy_def not_found_def)

theorem unknown_identifier_witness:
  "map_of (instances \<lparr>instances = [(''map1'', \<lparr>lmap = Some [], markers = [], eventListeners = []\<rparr>)]\<rparr>)
     ''map2'' = None \<and>
   MapifyOS_search sample_platform
     \<lparr>instances = [(''map1'', \<lparr>lmap = Some [], markers = [], eventListeners = []\<rparr>)]\<rparr>
     ''map2'' ''hospital'' (Obj []) NetworkError =
     (Inl (Error (''Map instance '' @ [CHR 0x27] @ ''map2'' @ [CHR 0x27] @ '' not found'')), [],
      \<lparr>instances = [(''map1'', \<lparr>lmap = Some [], markers = [], eventListeners = []\<rparr>)]\<rparr>) \<and>
   MapifyOS_destroy
     \<lparr>instances = [(''map1'', \<lparr>lmap = Some [], markers = [], eventListeners = []\<rparr>)]\<rparr> ''map2'' =
     Inr \<lparr>instances = [(''map1'', \<lparr>lmap = Some [], markers = [], eventListeners = []\<rparr>)]\<rparr>"
proof -
  let ?F = "\<lparr>instances = [(''map1'', \<lparr>lmap = Some [], markers = [], eventListeners = []\<rparr>)]\<rparr>"
  have h: "map_of (instances ?F) ''map2'' = None" by simp
  from unknown_identifier [OF h, of sample_platform "''hospital''" "Obj []" NetworkError 0 0 "fallback_record 0 0"]
  have "MapifyOS_search sample_platform ?F ''map2'' ''hospital'' (Obj []) NetworkError =
     (Inl (Error (''Map instance '' @ [CHR 0x27] @ ''map2'' @ [CHR 0x27] @ '' not found'')), [], ?F)"
    and "MapifyOS_destroy ?F ''map2'' = Inr ?F"
    by (rule conjunct1, rule conjunct2 [OF conjunct2])
  with h show ?thesis by (intro conjI)
qed

theorem facade_destroy_counterexample:
  "MapifyOS_destroy \<lparr>instances = []\<rparr> ''nowhere'' = Inr \<lparr>instances = []\<rparr>"
  by (simp add: MapifyOS_destroy_def)

lemma remove_layers_live: "\<exists>rest. remove_layers (Some layers) ms = Inr (Some rest)"
  by (induction ms arbitrary: layers) auto

lemma clearSearchMarkers_live:
  assumes "lmap s = Some layers"
  shows "\<exists>rest. clearSearchMarkers s = Inr (s\<lparr>lmap := Some rest, markers := []\<rparr>)"
proof -
  from remove_layers_live obtain rest where "remove_layers (Some layers) (markers s) = Inr (Some rest)"
    by blast
  with assms have "clearSearchMarkers s = Inr (s\<lparr>lmap := Some rest, markers := []\<rparr>)"
    by (simp add: clearSearchMarkers_def)
  then show ?thesis ..
qed

lemma searchPlaces_fails: "request_fails outcome \<Longrightarrow> searchPlaces outcome = Arr []"
  by (cases outcome) (auto simp: request_fails_def searchPlaces_def)

lemma search_begin_live:
  assumes "lmap s = Some layers" and "options \<noteq> Null"
  shows "search_begin s options = None"
  using assms
  by (cases options) (simp_all add: search_begin_def default_to_def get_property_def)

lemma emit_event: "\<forall>call \<in> set (emit s event data). fst (snd call) = event"
  by (auto simp: emit_def split: option.splits)

lemma remove_layers_fold:
  "remove_layers (Some layers) ms = Inr (Some (fold remove1 ms layers))"
  by (induction ms arbitrary: layers) simp_all

lemma fold_remove1_distinct:
  "distinct layers \<Longrightarrow>
   distinct (fold remove1 ms layers) \<and> set (fold remove1 ms layers) = set layers - set ms"
proof (induction ms arbitrary: layers)
  case Nil
  then show ?case by simp
next
  case (Cons m ms)
  from Cons.prems have d: "distinct (remove1 m layers)" by simp
  from Cons.prems have s: "set (remove1 m layers) = set layers - {m}" by simp
  from Cons.IH [OF d] s show ?case by auto
qed

lemma clearSearchMarkers_state:
  assumes "lmap s = Some layers"
  shows "clearSearchMarkers s =
     Inr (s\<lparr>lmap := Some (fold remove1 (markers s) layers), markers := []\<rparr>)"
  using assms by (simp add: clearSearchMarkers_def remove_layers_fold)

text \<open>
  C4 (as amended): when the search request of a search on a ready Map Session fails
  (no response, a status that is not OK, a body that is not JSON), the operation
  clears the search markers placed before: it takes each of them off the map, one
  layer per marker, and empties the marker list, so that a map whose layers are
  distinct keeps exactly the layers that were not search markers. It returns an empty
  result list and emits the search event, with that empty list, to the subscribers of
  search. It emits nothing else: the searchError event is not emitted. The
  subscriptions stay as they are.
\<close>

theorem failed_search:
  assumes "request_fails outcome" and "lmap s = Some layers" and "options \<noteq> Null"
  shows "search P s query options outcome =
           (Arr [], emit s ''search'' (SearchData query (Arr [])),
            s\<lparr>lmap := Some (fold remove1 (markers s) layers), markers := []\<rparr>) \<and>
         (\<forall>call \<in> set (emit s ''search'' (SearchData query (Arr []))). fst (snd call) = ''search'') \<and>
         (distinct layers \<longrightarrow>
            set (fold remove1 (markers s) layers) = set layers - set (markers s))"
proof -
  let ?s' = "s\<lparr>lmap := Some (fold remove1 (markers s) layers), markers := []\<rparr>"
  from assms(2) have c: "clearSearchMarkers s = Inr ?s'" by (rule clearSearchMarkers_state)
  have body: "search_body P s (Arr []) = (Inr (Arr []), ?s')"
    by (simp add: search_body_def c)
  have e: "emit ?s' ''search'' (SearchData query (Arr [])) = emit s ''search'' (SearchData query (Arr []))"
    by (simp add: emit_def)
  have "search P s query options outcome =
          (Arr [], emit s ''search'' (SearchData query (Arr [])), ?s')"
    using assms by (simp add: search_def search_begin_live searchPlaces_fails search_resume_def body e)
  moreover have "\<forall>call \<in> set (emit s ''search'' (SearchData query (Arr []))). fst (snd call) = ''search''"
    by (rule emit_event)
  moreover have "distinct layers \<longrightarrow>
      set (fold remove1 (markers s) layers) = set layers - set (markers s)"
    using fold_remove1_distinct by blast
  ultimately show ?thesis by (intro conjI)
qed

theorem failed_search_witness:
  "request_fails (HttpResponse False 503 None) \<and>
   search sample_platform
      \<lparr>lmap = Some [\<lparr>marker_lat = Num 6, marker_lng = Num 7, marker_popup = ''q''\<rparr>,
                     \<lparr>marker_lat = Num 4, marker_lng = Num 5, marker_popup = ''p''\<rparr>],
       markers = [\<lparr>marker_lat = Num 4, marker_lng = Num 5, marker_popup = ''p''\<rparr>],
       eventListeners = [(''search'', [3]), (''searchError'', [7])]\<rparr>
      ''hospital'' (Obj []) (HttpResponse False 503 None) =
        (Arr [], [(3, ''search'', SearchData ''hospital'' (Arr []))],
         \<lparr>lmap = Some [\<lparr>marker_lat = Num 6, marker_lng = Num 7, marker_popup = ''q''\<rparr>],
          markers = [],
          eventListeners = [(''search'', [3]), (''searchError'', [7])]\<rparr>)"
proof -
  let ?m0 = "\<lparr>marker_lat = Num 4, marker_lng = Num 5, marker_popup = ''p''\<rparr>"
  let ?m1 = "\<lparr>marker_lat = Num 6, marker_lng = Num 7, marker_popup = ''q''\<rparr>"
  let ?s = "\<lparr>lmap = Some [?m1, ?m0], markers = [?m0],
             eventListeners = [(''search'', [3]), (''searchError'', [7])]\<rparr>"
  have f: "request_fails (HttpResponse False 503 None)" by (simp add: request_fails_def)
  have l: "lmap ?s = Some [?m1, ?m0]" by simp
  have n: "Obj [] \<noteq> Null" by simp
  have e: "emit ?s ''search'' (SearchData ''hospital'' (Arr [])) =
             [(3, ''search'', SearchData ''hospital'' (Arr []))]"
    by (simp add: emit_def)
  have st: "?s\<lparr>lmap := Some (fold remove1 (markers ?s) [?m1, ?m0]), markers := []\<rparr> =
      \<lparr>lmap = Some [?m1], markers = [],
       eventListeners = [(''search'', [3]), (''searchError'', [7])]\<rparr>"
    by simp
  have "search sample_platform ?s ''hospital'' (Obj []) (HttpResponse False 503 None) =
           (Arr [], emit ?s ''search'' (SearchData ''hospital'' (Arr [])),
            ?s\<lparr>lmap := Some (fold remove1 (markers ?s) [?m1, ?m0]), markers := []\<rparr>)"
    using failed_search [OF f l n, of sample_platform "''hospital''"] by (rule conjunct1)
  then have "search sample_platform ?s ''hospital'' (Obj []) (HttpResponse False 503 None) =
        (Arr [], [(3, ''search'', SearchData ''hospital'' (Arr []))],
         \<lparr>lmap = Some [?m1], markers = [],
          eventListeners = [(''search'', [3]), (''searchError'', [7])]\<rparr>)"
    by (simp only: e st)
  with f show ?thesis by (intro conjI)
qed

theorem search_error_counterexample:
  "search sample_platform
     \<lparr>lmap = Some [], markers = [], eventListeners = [(''searchError'', [7])]\<rparr>
     ''hospital'' (Obj []) NetworkError =
     (Arr [], [], \<lparr>lmap = Some [], markers = [], eventListeners = [(''searchError'', [7])]\<rparr>) \<and>
   search sample_platform
     \<lparr>lmap = Some [], markers = [], eventListeners = [(''searchError'', [7])]\<rparr>
     ''hospital'' (Obj []) (HttpResponse False 503 None) =
     (Arr [], [], \<lparr>lmap = Some [], markers = [], eventListeners = [(''searchError'', [7])]\<rparr>)"
  by (simp add: search_def search_begin_def default_to_def get_property_def searchPlaces_def
      search_resume_def search_body_def clearSearchMarkers_def emit_def)

lemma template_text_typed:
  "string_or_absent v \<Longrightarrow> truthy v \<Longrightarrow> \<exists>t. template_text P v = Inr t"
  by (cases v) (simp_all add: template_text_def string_or_absent_def)

lemma phone_item_typed:
  assumes "string_or_absent v"
  shows "\<exists>t. phone_item P v = Inr t"
proof (cases "truthy v \<and> v \<noteq> Str ''Not available''")
  case True
  with assms obtain t where "template_text P v = Inr t"
    using template_text_typed by blast
  with True show ?thesis by (simp add: phone_item_def)
next
  case False
  then show ?thesis by (auto simp: phone_item_def)
qed

lemma website_item_typed:
  assumes "string_or_absent v"
  shows "\<exists>t. website_item v = Inr t"
  using assms by (cases v) (simp_all add: website_item_def string_or_absent_def Let_def)

lemma createPopupContent_typed:
  assumes "\<exists>a. default_to (address data) (Str ''Address not available'') = Str a"
    and "string_or_absent (phone data)" and "string_or_absent (website data)"
  shows "\<exists>content. createPopupContent P data = Inr content"
proof -
  from assms(1) obtain a where a: "default_to (address data) (Str ''Address not available'') = Str a" ..
  from assms(2) obtain p where p: "phone_item P (phone data) = Inr p"
    using phone_item_typed by blast
  from assms(3) obtain w where w: "website_item (website data) = Inr w"
    using website_item_typed by blast
  from a p w show ?thesis by (simp add: createPopupContent_def Let_def)
qed

lemma format_result_type_typed:
  "string_or_absent v \<Longrightarrow> \<exists>t. format_result_type v = Inr t"
  by (cases v) (simp_all add: format_result_type_def string_or_absent_def)

lemma result_address:
  assumes "string_or_absent v"
  shows "\<exists>a. default_to (js_or v (Str ''Address not available'')) (Str ''Address not available'') = Str a"
  using assms by (cases v) (simp_all add: string_or_absent_def js_or_def default_to_def)

lemma createSearchResultPopup_typed:
  assumes "typed_result result"
  shows "\<exists>content. createSearchResultPopup P result = Inr content"
proof -
  from assms have n: "get_property result ''name'' = Inr (property result ''name'')"
    by (simp add: typed_result_def get_property_def)
  from assms obtain t where t: "format_result_type (property result ''type'') = Inr t"
    using format_result_type_typed by (auto simp: typed_result_def)
  let ?data = "\<lparr>name = property result ''name'',
                  address = js_or (property result ''address'') (Str ''Address not available''),
                  type = t,
                  phone = property result ''phone'',
                  website = property result ''website'',
                  hours = property result ''opening_hours''\<rparr>"
  have "\<exists>content. createPopupContent P ?data = Inr content"
  proof (rule createPopupContent_typed)
    show "\<exists>a. default_to (address ?data) (Str ''Address not available'') = Str a"
      using assms result_address by (simp add: typed_result_def)
    show "string_or_absent (phone ?data)" using assms by (simp add: typed_result_def)
    show "string_or_absent (website ?data)" using assms by (simp add: typed_result_def)
  qed
  with n t show ?thesis by (simp add: createSearchResultPopup_def)
qed

lemma add_results_typed:
  assumes "lmap s = Some layers"
    and "\<forall>r \<in> set rs. typed_result r"
    and "\<forall>r \<in> set rs. \<forall>m. addMarker P (Some m) (property r ''lat'') (property r ''lng'') = None"
  shows "\<exists>s2. add_results P s rs = (None, s2) \<and> lmap s2 \<noteq> None \<and>
     eventListeners s2 = eventListeners s \<and>
     map (\<lambda>m. (marker_lat m, marker_lng m)) (markers s2) =
       map (\<lambda>m. (marker_lat m, marker_lng m)) (markers s) @
       map (\<lambda>r. (property r ''lat'', property r ''lng''))
         (filter (\<lambda>r. truthy (property r ''lat'') \<and> truthy (property r ''lng'')) rs)"
  using assms
proof (induction rs arbitrary: s layers)
  case Nil
  then show ?case by simp
next
  case (Cons r rs)
  from Cons.prems(2) have tr: "typed_result r" and trs: "\<forall>r \<in> set rs. typed_result r" by simp_all
  from Cons.prems(3) have
    ar: "addMarker P (Some layers) (property r ''lat'') (property r ''lng'') = None" and
    ars: "\<forall>r \<in> set rs. \<forall>m. addMarker P (Some m) (property r ''lat'') (property r ''lng'') = None"
    by simp_all
  from tr have g: "get_property r ''lat'' = Inr (property r ''lat'')"
    by (simp add: typed_result_def get_property_def)
  show ?case
  proof (cases "truthy (property r ''lat'') \<and> truthy (property r ''lng'')")
    case False
    from Cons.IH [OF Cons.prems(1) trs ars] obtain s2 where
      s2: "add_results P s rs = (None, s2)" "lmap s2 \<noteq> None"
        "eventListeners s2 = eventListeners s"
        "map (\<lambda>m. (marker_lat m, marker_lng m)) (markers s2) =
           map (\<lambda>m. (marker_lat m, marker_lng m)) (markers s) @
           map (\<lambda>r. (property r ''lat'', property r ''lng''))
             (filter (\<lambda>r. truthy (property r ''lat'') \<and> truthy (property r ''lng'')) rs)"
      by blast
    from False g s2(1) have "add_results P s (r # rs) = (None, s2)" by auto
    with s2 False show ?thesis by auto
  next
    case True
    from tr obtain content where c: "createSearchResultPopup P r = Inr content"
      using createSearchResultPopup_typed by blast
    let ?m = "\<lparr>marker_lat = property r ''lat'', marker_lng = property r ''lng'',
               marker_popup = content\<rparr>"
    let ?s1 = "s\<lparr>lmap := map_option (\<lambda>layers. layers @ [?m]) (lmap s),
                  markers := markers s @ [?m]\<rparr>"
    have l1: "lmap ?s1 = Some (layers @ [?m])" using Cons.prems(1) by simp
    from Cons.IH [OF l1 trs ars] obtain s2 where
      s2: "add_results P ?s1 rs = (None, s2)" "lmap s2 \<noteq> None"
        "eventListeners s2 = eventListeners ?s1"
        "map (\<lambda>m. (marker_lat m, marker_lng m)) (markers s2) =
           map (\<lambda>m. (marker_lat m, marker_lng m)) (markers ?s1) @
           map (\<lambda>r. (property r ''lat'', property r ''lng''))
             (filter (\<lambda>r. truthy (property r ''lat'') \<and> truthy (property r ''lng'')) rs)"
      by blast
    from True g ar c s2(1) Cons.prems(1) have "add_results P s (r # rs) = (None, s2)"
      by (simp add: Let_def)
    with s2 True show ?thesis by simp
  qed
qed


lemma search_body_typed:
  assumes "lmap s = Some layers"
    and "\<forall>r \<in> set rs. typed_result r"
    and "\<forall>r \<in> set rs. \<forall>m. addMarker P (Some m) (property r ''lat'') (property r ''lng'') = None"
  obtains x s2 where "search_body P s (Arr rs) = (x, s2)"
    and "eventListeners s2 = eventListeners s"
    and "map (\<lambda>m. (marker_lat m, marker_lng m)) (markers s2) =
       map (\<lambda>r. (property r ''lat'', property r ''lng''))
         (filter (\<lambda>r. truthy (property r ''lat'') \<and> truthy (property r ''lng'')) rs)"
    and "rs = [] \<or> fitBounds P (markers s2) = None \<longrightarrow> x = Inr (Arr rs)"
proof -
  from assms(1) obtain rest where
    c: "clearSearchMarkers s = Inr (s\<lparr>lmap := Some rest, markers := []\<rparr>)"
    using clearSearchMarkers_live by blast
  let ?s1 = "s\<lparr>lmap := Some rest, markers := []\<rparr>"
  have l1: "lmap ?s1 = Some rest" by simp
  from add_results_typed [OF l1 assms(2) assms(3)] obtain s2 where
    all: "add_results P ?s1 rs = (None, s2) \<and> lmap s2 \<noteq> None \<and>
     eventListeners s2 = eventListeners ?s1 \<and>
     map (\<lambda>m. (marker_lat m, marker_lng m)) (markers s2) =
       map (\<lambda>m. (marker_lat m, marker_lng m)) (markers ?s1) @
       map (\<lambda>r. (property r ''lat'', property r ''lng''))
         (filter (\<lambda>r. truthy (property r ''lat'') \<and> truthy (property r ''lng'')) rs)" ..
  from all have s2: "add_results P ?s1 rs = (None, s2)" by (rule conjunct1)
  from all have live: "lmap s2 \<noteq> None" by (rule conjunct1 [OF conjunct2])
  from all have "eventListeners s2 = eventListeners ?s1"
    by (rule conjunct1 [OF conjunct2 [OF conjunct2]])
  then have ev: "eventListeners s2 = eventListeners s" by simp
  from all have "map (\<lambda>m. (marker_lat m, marker_lng m)) (markers s2) =
       map (\<lambda>m. (marker_lat m, marker_lng m)) (markers ?s1) @
       map (\<lambda>r. (property r ''lat'', property r ''lng''))
         (filter (\<lambda>r. truthy (property r ''lat'') \<and> truthy (property r ''lng'')) rs)"
    by (rule conjunct2 [OF conjunct2 [OF conjunct2]])
  then have ms: "map (\<lambda>m. (marker_lat m, marker_lng m)) (markers s2) =
       map (\<lambda>r. (property r ''lat'', property r ''lng''))
         (filter (\<lambda>r. truthy (property r ''lat'') \<and> truthy (property r ''lng'')) rs)"
    by simp
  from live obtain final where final: "lmap s2 = Some final" by (cases "lmap s2") simp_all
  have body: "search_body P s (Arr rs) =
      (if rs \<noteq> [] then (case fitBounds P (markers s2) of
                            Some e \<Rightarrow> (Inl e, s2) | None \<Rightarrow> (Inr (Arr rs), s2))
       else (Inr (Arr rs), s2))"
    by (simp add: search_body_def c s2 final)
  show ?thesis
  proof (cases "rs = [] \<or> fitBounds P (markers s2) = None")
    case True
    then have b: "search_body P s (Arr rs) = (Inr (Arr rs), s2)"
      unfolding body by (cases "rs = []") simp_all
    from b ev ms show ?thesis by (rule that) simp
  next
    case False
    then obtain e where "fitBounds P (markers s2) = Some e" and "rs \<noteq> []"
      by (cases "fitBounds P (markers s2)") simp_all
    then have b: "search_body P s (Arr rs) = (Inl e, s2)" unfolding body by simp
    from b ev ms show ?thesis by (rule that) (use False in simp)
  qed
qed

text \<open>
  The markers a search places, for any list of results as the backend gives them and
  coordinates that the map library takes for a marker: one marker per result whose
  lat and lng are both truthy, in the order of the results, and none for the others.
  The whole list is returned when it is empty or the fitting of the view succeeds.
\<close>

lemma search_markers_placed:
  assumes "lmap s = Some layers"
    and "\<forall>r \<in> set rs. typed_result r"
    and "\<forall>r \<in> set rs. \<forall>m. addMarker P (Some m) (property r ''lat'') (property r ''lng'') = None"
  shows "\<exists>returned calls s'. search_resume P s query (Arr rs) = (returned, calls, s') \<and>
     map (\<lambda>m. (marker_lat m, marker_lng m)) (markers s') =
       map (\<lambda>r. (property r ''lat'', property r ''lng''))
         (filter (\<lambda>r. truthy (property r ''lat'') \<and> truthy (property r ''lng'')) rs) \<and>
     (rs = [] \<or> fitBounds P (markers s') = None \<longrightarrow>
        returned = Arr rs \<and> calls = emit s ''search'' (SearchData query (Arr rs))) \<and>
     \<not> truthy (Num 0) \<and> \<not> truthy Undefined \<and> (\<forall>x. truthy (Num x) = (x \<noteq> 0))"
proof -
  from assms obtain x s2 where
    b: "search_body P s (Arr rs) = (x, s2)" and
    ev: "eventListeners s2 = eventListeners s" and
    ms: "map (\<lambda>m. (marker_lat m, marker_lng m)) (markers s2) =
       map (\<lambda>r. (property r ''lat'', property r ''lng''))
         (filter (\<lambda>r. truthy (property r ''lat'') \<and> truthy (property r ''lng'')) rs)" and
    ok: "rs = [] \<or> fitBounds P (markers s2) = None \<longrightarrow> x = Inr (Arr rs)"
    by (rule search_body_typed)
  have e: "emit s2 event data = emit s event data" for event data
    by (simp add: emit_def ev)
  have "\<exists>returned calls. search_resume P s query (Arr rs) = (returned, calls, s2) \<and>
     (x = Inr (Arr rs) \<longrightarrow>
        returned = Arr rs \<and> calls = emit s ''search'' (SearchData query (Arr rs)))"
    by (cases x) (simp_all add: search_resume_def b e)
  then obtain returned where "\<exists>calls. search_resume P s query (Arr rs) = (returned, calls, s2) \<and>
     (x = Inr (Arr rs) \<longrightarrow>
        returned = Arr rs \<and> calls = emit s ''search'' (SearchData query (Arr rs)))" ..
  then obtain calls where rc: "search_resume P s query (Arr rs) = (returned, calls, s2) \<and>
     (x = Inr (Arr rs) \<longrightarrow>
        returned = Arr rs \<and> calls = emit s ''search'' (SearchData query (Arr rs)))" ..
  from rc have r: "search_resume P s query (Arr rs) = (returned, calls, s2)" by (rule conjunct1)
  from rc have full: "x = Inr (Arr rs) \<longrightarrow>
        returned = Arr rs \<and> calls = emit s ''search'' (SearchData query (Arr rs))"
    by (rule conjunct2)
  from ok full have ret: "rs = [] \<or> fitBounds P (markers s2) = None \<longrightarrow>
        returned = Arr rs \<and> calls = emit s ''search'' (SearchData query (Arr rs))"
    by (intro impI) (erule (1) mp [OF _ mp])
  have tr: "\<not> truthy (Num 0) \<and> \<not> truthy Undefined \<and> (\<forall>x. truthy (Num x) = (x \<noteq> 0))"
    by simp
  have "search_resume P s query (Arr rs) = (returned, calls, s2) \<and>
     map (\<lambda>m. (marker_lat m, marker_lng m)) (markers s2) =
       map (\<lambda>r. (property r ''lat'', property r ''lng''))
         (filter (\<lambda>r. truthy (property r ''lat'') \<and> truthy (property r ''lng'')) rs) \<and>
     (rs = [] \<or> fitBounds P (markers s2) = None \<longrightarrow>
        returned = Arr rs \<and> calls = emit s ''search'' (SearchData query (Arr rs))) \<and>
     \<not> truthy (Num 0) \<and> \<not> truthy Undefined \<and> (\<forall>x. truthy (Num x) = (x \<noteq> 0))"
    by (rule conjI [OF r conjI [OF ms conjI [OF ret tr]]])
  then show ?thesis by (intro exI)
qed

text \<open>
  C10: the claim has a result whose latitude or longitude is 0 skipped without a
  marker and still returned. The code does so when some other result gets a marker:
  of a result at latitude 0 and a result at latitude 1 both are returned and emitted
  with the search event, and the second alone gets a marker, on the map and in the
  marker list. When every result is skipped the code does not: the view is fitted
  whenever the result list is not empty, on the group of the markers placed, and an
  empty group has no bounds to pad, so for the one result at latitude 0 the search
  ends in its catch, returns the empty list and emits searchError.
\<close>

theorem skipped_results_returned:
  "search_resume sample_platform
     \<lparr>lmap = Some [], markers = [], eventListeners = [(''search'', [3]), (''searchError'', [7])]\<rparr>
     ''hospital'' (Arr [Obj [(''lat'', Num 0), (''lng'', Num 3)]]) =
     (Arr [], [(7, ''searchError'', SearchErrorData ''hospital'' TypeError)],
      \<lparr>lmap = Some [], markers = [],
       eventListeners = [(''search'', [3]), (''searchError'', [7])]\<rparr>) \<and>
   (\<exists>content.
      createSearchResultPopup sample_platform
        (Obj [(''lat'', Num 1), (''lng'', Num 3), (''name'', Str ''A'')]) = Inr content \<and>
      search_resume sample_platform
        \<lparr>lmap = Some [], markers = [], eventListeners = [(''search'', [3]), (''searchError'', [7])]\<rparr>
        ''hospital''
        (Arr [Obj [(''lat'', Num 0), (''lng'', Num 3)],
              Obj [(''lat'', Num 1), (''lng'', Num 3), (''name'', Str ''A'')]]) =
        (Arr [Obj [(''lat'', Num 0), (''lng'', Num 3)],
              Obj [(''lat'', Num 1), (''lng'', Num 3), (''name'', Str ''A'')]],
         [(3, ''search'', SearchData ''hospital''
             (Arr [Obj [(''lat'', Num 0), (''lng'', Num 3)],
                   Obj [(''lat'', Num 1), (''lng'', Num 3), (''name'', Str ''A'')]]))],
         \<lparr>lmap = Some [\<lparr>marker_lat = Num 1, marker_lng = Num 3, marker_popup = content\<rparr>],
          markers = [\<lparr>marker_lat = Num 1, marker_lng = Num 3, marker_popup = content\<rparr>],
          eventListeners = [(''search'', [3]), (''searchError'', [7])]\<rparr>))"
proof -
  let ?s = "\<lparr>lmap = Some [], markers = [],
             eventListeners = [(''search'', [3]), (''searchError'', [7])]\<rparr>"
  let ?r0 = "Obj [(''lat'', Num 0), (''lng'', Num 3)]"
  let ?r1 = "Obj [(''lat'', Num 1), (''lng'', Num 3), (''name'', Str ''A'')]"
  have skipped: "search_resume sample_platform ?s ''hospital'' (Arr [?r0]) =
     (Arr [], [(7, ''searchError'', SearchErrorData ''hospital'' TypeError)], ?s)"
    by (simp add: search_resume_def search_body_def clearSearchMarkers_def get_property_def
        sample_platform_def emit_def)
  have "typed_result ?r1" by (simp add: typed_result_def string_or_absent_def)
  then obtain content where c: "createSearchResultPopup sample_platform ?r1 = Inr content"
    using createSearchResultPopup_typed by blast
  have am: "addMarker sample_platform (Some m) la lo = None" for m la lo
    by (simp add: sample_platform_def)
  have fb: "fitBounds sample_platform (x # xs) = None" for x xs
    by (simp add: sample_platform_def)
  have placed: "search_resume sample_platform ?s ''hospital'' (Arr [?r0, ?r1]) =
        (Arr [?r0, ?r1], [(3, ''search'', SearchData ''hospital'' (Arr [?r0, ?r1]))],
         \<lparr>lmap = Some [\<lparr>marker_lat = Num 1, marker_lng = Num 3, marker_popup = content\<rparr>],
          markers = [\<lparr>marker_lat = Num 1, marker_lng = Num 3, marker_popup = content\<rparr>],
          eventListeners = [(''search'', [3]), (''searchError'', [7])]\<rparr>)"
    by (simp add: search_resume_def search_body_def clearSearchMarkers_def get_property_def
        emit_def Let_def c am fb)
  from c placed have "\<exists>content.
      createSearchResultPopup sample_platform ?r1 = Inr content \<and>
      search_resume sample_platform ?s ''hospital'' (Arr [?r0, ?r1]) =
        (Arr [?r0, ?r1], [(3, ''search'', SearchData ''hospital'' (Arr [?r0, ?r1]))],
         \<lparr>lmap = Some [\<lparr>marker_lat = Num 1, marker_lng = Num 3, marker_popup = content\<rparr>],
          markers = [\<lparr>marker_lat = Num 1, marker_lng = Num 3, marker_popup = content\<rparr>],
          eventListeners = [(''search'', [3]), (''searchError'', [7])]\<rparr>)"
    by (intro exI conjI)
  with skipped show ?thesis by (intro conjI)
qed

lemma add_results_released:
  assumes "lmap d = None" and "\<forall>la lo. addMarker P None la lo \<noteq> None"
  shows "\<exists>e. add_results P d rs = (e, d)"
proof (induction rs)
  case Nil
  show ?case by simp
next
  case (Cons r rs)
  then obtain e where e: "add_results P d rs = (e, d)" by blast
  show ?case
  proof (cases "get_property r ''lat''")
    case (Inl err)
    then show ?thesis by simp
  next
    case (Inr la)
    show ?thesis
    proof (cases "truthy la \<and> truthy (property r ''lng'')")
      case False
      with Inr e show ?thesis by auto
    next
      case True
      from assms(2) obtain err where "addMarker P None la (property r ''lng'') = Some err"
        by blast
      with True Inr assms(1) show ?thesis by simp
    qed
  qed
qed

lemma search_resume_released:
  assumes "lmap d = None" and "markers d = []" and "eventListeners d = []"
    and "\<forall>la lo. addMarker P None la lo \<noteq> None"
  shows "search_resume P d query results = (Arr [], [], d)"
proof -
  have c: "clearSearchMarkers d = Inr d"
    using assms(1,2) by (simp add: clearSearchMarkers_def)
  have e: "emit d event data = []" for event data
    using assms(3) by (simp add: emit_def)
  have "\<exists>x. search_body P d results = (x, d) \<and> (x = Inr (Arr []) \<or> (\<exists>err. x = Inl err))"
  proof (cases results)
    case (Arr rs)
    from add_results_released [OF assms(1) assms(4)] obtain err where
      a: "add_results P d rs = (err, d)" by blast
    show ?thesis
    proof (cases err)
      case None
      with a Arr c assms(1) show ?thesis by (cases rs) (simp_all add: search_body_def)
    next
      case (Some x)
      with a Arr c show ?thesis by (simp add: search_body_def)
    qed
  qed (simp_all add: search_body_def c)
  then obtain x where "search_body P d results = (x, d)" and "x = Inr (Arr []) \<or> (\<exists>err. x = Inl err)"
    by blast
  then show ?thesis by (auto simp: search_resume_def e)
qed

lemma handleMapClick_resume_state:
  assumes "eventListeners d = []"
  shows "\<exists>content. handleMapClick_resume P d nominatimLookup overpassLookup la lo = (content, [], d)"
proof -
  have e: "emit d event data = []" for event data
    using assms by (simp add: emit_def)
  show ?thesis by (simp add: handleMapClick_resume_def e split: sum.splits)
qed

text \<open>
  C9: destroying a ready Map Session does not raise and leaves it with no map, no
  markers and no subscribers. When the map library refuses to add a marker to a
  released map, a search that completes on the destroyed session, whatever results it
  brings, returns the empty list, calls no subscriber and leaves the state as destroy
  left it, with no marker added; a click resolution that completes there sets the
  content of its popup, calls no subscriber and leaves the state as it is. Neither
  completion has a way to raise: every error inside is caught.
\<close>

theorem completion_after_destroy:
  assumes "lmap s = Some layers" and "\<forall>la lo. addMarker P None la lo \<noteq> None"
  shows "\<exists>d. destroy s = Inr d \<and> lmap d = None \<and> markers d = [] \<and> eventListeners d = [] \<and>
     search_resume P d query results = (Arr [], [], d) \<and>
     (\<exists>content. handleMapClick_resume P d nominatimLookup overpassLookup la lo = (content, [], d))"
proof -
  from assms(1) obtain rest where
    c: "clearSearchMarkers s = Inr (s\<lparr>lmap := Some rest, markers := []\<rparr>)"
    using clearSearchMarkers_live by blast
  let ?d = "s\<lparr>lmap := None, markers := [], eventListeners := []\<rparr>"
  have d: "destroy s = Inr ?d" using assms(1) by (simp add: destroy_def c)
  have f: "lmap ?d = None" "markers ?d = []" "eventListeners ?d = []" by simp_all
  from search_resume_released [OF f assms(2)]
  have sr: "search_resume P ?d query results = (Arr [], [], ?d)" .
  from handleMapClick_resume_state [OF f(3)]
  have hr: "\<exists>content. handleMapClick_resume P ?d nominatimLookup overpassLookup la lo = (content, [], ?d)" .
  from d f sr hr show ?thesis by blast
qed

theorem completion_after_destroy_witness:
  "(\<forall>la lo. addMarker sample_platform None la lo \<noteq> None) \<and>
   (\<exists>d. destroy \<lparr>lmap = Some [\<lparr>marker_lat = Num 4, marker_lng = Num 5, marker_popup = ''p''\<rparr>],
                  markers = [\<lparr>marker_lat = Num 4, marker_lng = Num 5, marker_popup = ''p''\<rparr>],
                  eventListeners = [(''search'', [3])]\<rparr> = Inr d \<and>
        markers d = [] \<and>
        search_resume sample_platform d ''hospital'' (Arr [Obj [(''lat'', Num 1), (''lng'', Num 3)]]) =
          (Arr [], [], d))"
proof -
  let ?s = "\<lparr>lmap = Some [\<lparr>marker_lat = Num 4, marker_lng = Num 5, marker_popup = ''p''\<rparr>],
             markers = [\<lparr>marker_lat = Num 4, marker_lng = Num 5, marker_popup = ''p''\<rparr>],
             eventListeners = [(''search'', [3])]\<rparr>"
  have l: "lmap ?s = Some [\<lparr>marker_lat = Num 4, marker_lng = Num 5, marker_popup = ''p''\<rparr>]"
    by simp
  have a: "\<forall>la lo. addMarker sample_platform None la lo \<noteq> None"
    by (simp add: sample_platform_def)
  from completion_after_destroy [OF l a, of "''hospital''" "Arr [Obj [(''lat'', Num 1), (''lng'', Num 3)]]"
      Rejects Rejects 0 0]
  have "\<exists>d. destroy ?s = Inr d \<and> markers d = [] \<and>
        search_resume sample_platform d ''hospital'' (Arr [Obj [(''lat'', Num 1), (''lng'', Num 3)]]) =
          (Arr [], [], d)"
    by blast
  with a show ?thesis by (intro conjI)
qed

text \<open>
  C3: the claim asks for every text field to be escaped wherever the fragment holds
  it. For a record whose phone, website and address carry markup, the fragment the
  code builds holds the phone as it stands in the target of the tel: link, the
  website as it stands in the target of its link, and the address, with nothing but
  its single quotes changed, in the handler of the copy button; the same values are
  escaped where they are element text.
\<close>

theorem attribute_positions_unescaped:
  \<open>createPopupContent P
     \<lparr>name = Str ''Cafe'', address = Str ''<i>Main St</i>'', type = Str ''Location'',
      phone = Str ''"><script>alert(1)</script>'', website = Str ''"><b>'',
      hours = Str ''Not available''\<rparr> =
   Inr (''<div class="mapify-popup"><h3>Cafe</h3><div class="address">&lt;i&gt;Main St&lt;/i&gt;</div><div class="contact-info">'' @
        ''<div class="contact-item">'' @ phone_icon @
        ''<a href="tel:"><script>alert(1)</script>" class="contact-link">"&gt;&lt;script&gt;alert(1)&lt;/script&gt;</a></div>'' @
        ''<div class="contact-item">'' @ website_icon @
        ''<a href=""><b>" target="_blank" class="contact-link">"&gt;&lt;b&gt;</a></div>'' @
        ''</div><button class="copy-button" onclick="this.copyAddress('<i>Main St</i>', this)">'' @
        copy_icon @ ''Copy Address</button></div>'')\<close>
  by (simp add: createPopupContent_def default_to_def Let_def popup_head_def phone_item_def
      website_item_def hours_item_def popup_foot_def template_text_def escapeHtml_def
      escape_unit_def escape_quotes_def strip_protocol_def strip_trailing_slash_def)

end
